theory Spec2Isabelle
  imports Main "HOL-Library.Multiset"
begin

section \<open>Values\<close>

text \<open>
  A field of a parsed JSON request body, as \<^verbatim>\<open>const { email, password } = req.body\<close>
  reads it: absent (\<^verbatim>\<open>undefined\<close>) or any JSON value. \<^verbatim>\<open>express.json()\<close> hands over
  whatever the client sent, and the handlers only test truthiness (\<^verbatim>\<open>!title\<close>) or
  presence (\<^verbatim>\<open>description !== undefined\<close>). Numbers are the integers here.
\<close>

datatype field =
    Undefined
  | Null
  | Bool bool
  | Num int
  | Str string
  | Arr "field list"
  | Obj "(string \<times> field) list"

text \<open>
  JavaScript truthiness: \<^verbatim>\<open>undefined\<close>, \<^verbatim>\<open>null\<close>, \<^verbatim>\<open>false\<close>, zero and the empty string
  are falsy, every array and object is truthy.
\<close>

fun truthy :: "field \<Rightarrow> bool" where
  "truthy Undefined = False"
| "truthy Null = False"
| "truthy (Bool b) = b"
| "truthy (Num n) = (n \<noteq> 0)"
| "truthy (Str s) = (s \<noteq> [])"
| "truthy (Arr xs) = True"
| "truthy (Obj kvs) = True"

text \<open>The operator \<^verbatim>\<open>a || b\<close>.\<close>

definition js_or :: "field \<Rightarrow> field \<Rightarrow> field" where
  "js_or a b = (if truthy a then a else b)"

type_synonym body = "string \<Rightarrow> field"

text \<open>
  JSON as the handlers send it. \<open>JTime t\<close> is the DATETIME text SQLite's
  \<^verbatim>\<open>CURRENT_TIMESTAMP\<close> produced at second \<open>t\<close>; the text has a resolution of one second
  and compares as the seconds do.
\<close>

datatype json =
    JNull
  | JBool bool
  | JNum int
  | JStr string
  | JTime nat
  | JArr "json list"
  | JObj "(string \<times> json) list"

text \<open>A property of an object literal; a property whose value is \<^verbatim>\<open>undefined\<close> is not serialised.\<close>

fun property :: "string \<Rightarrow> json option \<Rightarrow> (string \<times> json) list" where
  "property k None = []"
| "property k (Some v) = [(k, v)]"

text \<open>A field as \<^verbatim>\<open>res.json\<close> serialises it when a handler echoes it.\<close>

fun to_json :: "field \<Rightarrow> json" where
  "to_json Undefined = JNull"
| "to_json Null = JNull"
| "to_json (Bool b) = JBool b"
| "to_json (Num n) = JNum n"
| "to_json (Str s) = JStr s"
| "to_json (Arr xs) = JArr (map to_json xs)"
| "to_json (Obj kvs) = JObj (map (\<lambda>(k, v). (k, to_json v)) kvs)"

fun js :: "field \<Rightarrow> json option" where
  "js Undefined = None"
| "js f = Some (to_json f)"

fun nullable :: "string option \<Rightarrow> json" where
  "nullable None = JNull"
| "nullable (Some s) = JStr s"

record response =
  status :: nat
  content :: json

text \<open>\<^verbatim>\<open>res.status(c).json({ error: m })\<close>\<close>

definition error_response :: "nat \<Rightarrow> string \<Rightarrow> response" where
  "error_response c m = \<lparr>status = c, content = JObj [(''error'', JStr m)]\<rparr>"

text \<open>\<^verbatim>\<open>res.json(j)\<close> answers with status 200.\<close>

definition ok_response :: "json \<Rightarrow> response" where
  "ok_response j = \<lparr>status = 200, content = j\<rparr>"

section \<open>Configuration\<close>

definition PORT :: nat where
  "PORT = 3000"

definition JWT_SECRET :: string where
  "JWT_SECRET = ''your-secret-key-change-in-production''"

text \<open>
  The constants the module binds when it is loaded (lines 9 and 10). The environment of
  the process is an argument because it is an input of every run; these bindings do not
  read it, and nothing in the module can refuse to start for want of a secret.
\<close>

record config =
  port :: nat
  secret :: string

datatype config_error = MissingSecret

definition load_config :: "(string \<rightharpoonup> string) \<Rightarrow> config_error + config" where
  "load_config env = Inr \<lparr>port = PORT, secret = JWT_SECRET\<rparr>"

section \<open>The libraries\<close>

text \<open>
  The decoded payload of a token, as \<^verbatim>\<open>jwt.verify\<close> hands it to the callback and the
  guard stores it in \<^verbatim>\<open>req.user\<close>.
\<close>

record claims =
  c_id :: int
  c_email :: string
  c_iat :: nat
  c_exp :: nat

datatype jwt_error = TokenExpiredError | JsonWebTokenError

text \<open>
  bcrypt, jsonwebtoken, the database driver's binding of a value that is not a string and
  SQLite's conversion of a text operand compared with an INTEGER column are not part of
  the repository; the handlers are parametrised by them.
  \<^item> \<open>bcrypt_hash data rounds salt\<close>: the promise of \<^verbatim>\<open>bcrypt.hash(data, rounds)\<close>, with the
    salt the library draws; \<open>None\<close> is a rejected promise.
  \<^item> \<open>bcrypt_compare data hash\<close>: the promise of \<^verbatim>\<open>bcrypt.compare\<close>.
  \<^item> \<open>jwt_sign payload secret expiresIn clock\<close>: \<^verbatim>\<open>jwt.sign(payload, secret, { expiresIn })\<close>.
  \<^item> \<open>jwt_verify token secret clock\<close>: \<^verbatim>\<open>jwt.verify(token, secret, callback)\<close>.
  \<^item> \<open>sql_integer text\<close>: the integer a text parameter stands for in \<^verbatim>\<open>WHERE id = ?\<close>,
    \<open>None\<close> when it stands for none (then no row matches).
  \<^item> \<open>sql_text value\<close>: what a TEXT column holds, or is compared with, when a boolean, a
    number, an array or an object is bound to a parameter; \<open>None\<close> is NULL.
\<close>

record libs =
  bcrypt_hash :: "string \<Rightarrow> nat \<Rightarrow> string \<Rightarrow> string option"
  bcrypt_compare :: "string \<Rightarrow> string \<Rightarrow> bool option"
  jwt_sign :: "(string \<times> json) list \<Rightarrow> string \<Rightarrow> string \<Rightarrow> nat \<Rightarrow> string"
  jwt_verify :: "string \<Rightarrow> string \<Rightarrow> nat \<Rightarrow> jwt_error + claims"
  sql_integer :: "string \<Rightarrow> int option"
  sql_text :: "field \<Rightarrow> string option"

text \<open>
  bcrypt takes strings (and buffers, which a JSON body cannot carry): for any other data
  the promise of \<^verbatim>\<open>bcrypt.hash\<close> and of \<^verbatim>\<open>bcrypt.compare\<close> is rejected.
\<close>

fun hash_field :: "libs \<Rightarrow> field \<Rightarrow> nat \<Rightarrow> string \<Rightarrow> string option" where
  "hash_field L (Str p) r salt = bcrypt_hash L p r salt"
| "hash_field L f r salt = None"

fun compare_field :: "libs \<Rightarrow> field \<Rightarrow> string \<Rightarrow> bool option" where
  "compare_field L (Str p) h = bcrypt_compare L p h"
| "compare_field L f h = None"

section \<open>The database\<close>

text \<open>
  The two tables of the schema (lines 24 to 41), each a list of rows in rowid order.
  TEXT columns hold a string, nullable ones a \<open>string option\<close>; the two DATETIME columns
  hold the second at which \<^verbatim>\<open>CURRENT_TIMESTAMP\<close> was read. \<open>users_seq\<close> and \<open>tasks_seq\<close>
  are the AUTOINCREMENT counters: the largest rowid each table has ever had.
\<close>

record user =
  u_id :: int
  u_email :: string
  u_password :: string
  u_name :: string
  u_created_at :: nat

record task =
  t_id :: int
  t_user_id :: int
  t_title :: string
  t_description :: "string option"
  t_status :: "string option"
  t_created_at :: nat
  t_updated_at :: nat

record db =
  users :: "user list"
  tasks :: "task list"
  users_seq :: int
  tasks_seq :: int

definition empty_db :: db where
  "empty_db = \<lparr>users = [], tasks = [], users_seq = 0, tasks_seq = 0\<rparr>"

datatype sql_error = Unique | NotNull

text \<open>\<^verbatim>\<open>err.message.includes('UNIQUE')\<close>\<close>

fun includes_UNIQUE :: "sql_error \<Rightarrow> bool" where
  "includes_UNIQUE Unique = True"
| "includes_UNIQUE NotNull = False"

text \<open>
  The SQL value of a TEXT column for a bound field: a string as it is, \<^verbatim>\<open>null\<close> (and an
  unbound parameter) as NULL, anything else as the driver and the column's affinity make it.
\<close>

fun bind :: "libs \<Rightarrow> field \<Rightarrow> string option" where
  "bind L (Str s) = Some s"
| "bind L Undefined = None"
| "bind L Null = None"
| "bind L f = sql_text L f"

text \<open>AUTOINCREMENT: one more than the largest rowid the table has ever had.\<close>

definition next_rowid :: "int \<Rightarrow> int list \<Rightarrow> int" where
  "next_rowid seq ids = fold max ids seq + 1"

text \<open>\<^verbatim>\<open>INSERT INTO users (email, password, name) VALUES (?, ?, ?)\<close>; the result carries \<^verbatim>\<open>this.lastID\<close>.\<close>

definition run_insert_users ::
  "string option \<Rightarrow> string option \<Rightarrow> string option \<Rightarrow> nat \<Rightarrow> db \<Rightarrow> sql_error + int \<times> db" where
  "run_insert_users email password name now d =
     (case (email, password, name) of
        (Some e, Some p, Some n) \<Rightarrow>
          if e \<in> set (map u_email (users d)) then Inl Unique
          else
            let i = next_rowid (users_seq d) (map u_id (users d)) in
            Inr (i, d\<lparr>users := users d @
                         [\<lparr>u_id = i, u_email = e, u_password = p, u_name = n, u_created_at = now\<rparr>],
                       users_seq := i\<rparr>)
      | _ \<Rightarrow> Inl NotNull)"

text \<open>\<^verbatim>\<open>SELECT * FROM users WHERE email = ?\<close>, first row (\<^verbatim>\<open>db.get\<close>).\<close>

fun users_by_email :: "string option \<Rightarrow> db \<Rightarrow> user option" where
  "users_by_email None d = None"
| "users_by_email (Some e) d = find (\<lambda>u. u_email u = e) (users d)"

text \<open>\<^verbatim>\<open>SELECT id, email, name, created_at FROM users WHERE id = ?\<close>, first row, as JSON.\<close>

definition public_user :: "user \<Rightarrow> json" where
  "public_user u =
     JObj [(''id'', JNum (u_id u)), (''email'', JStr (u_email u)), (''name'', JStr (u_name u)),
           (''created_at'', JTime (u_created_at u))]"

definition users_public_by_id :: "int \<Rightarrow> db \<Rightarrow> json option" where
  "users_public_by_id i d = map_option public_user (find (\<lambda>u. u_id u = i) (users d))"

text \<open>The values of a SET clause; \<open>None\<close> when one of them is NULL.\<close>

fun non_null :: "('c \<times> string option) list \<Rightarrow> ('c \<times> string) list option" where
  "non_null [] = Some []"
| "non_null ((c, None) # xs) = None"
| "non_null ((c, Some v) # xs) = map_option (Cons (c, v)) (non_null xs)"

datatype user_column = Name | Email

fun set_user_column :: "user \<Rightarrow> user_column \<times> string \<Rightarrow> user" where
  "set_user_column u (Name, v) = u\<lparr>u_name := v\<rparr>"
| "set_user_column u (Email, v) = u\<lparr>u_email := v\<rparr>"

text \<open>
  \<^verbatim>\<open>UPDATE users SET col = ?, ... WHERE id = ?\<close>. Both columns are NOT NULL and email is
  UNIQUE: the statement fails, changing nothing, when it writes to a row an email that a
  row with another id holds. A statement that matches no row succeeds.
\<close>

definition run_update_users ::
  "(user_column \<times> string option) list \<Rightarrow> int \<Rightarrow> db \<Rightarrow> sql_error + db" where
  "run_update_users updates i d =
     (if \<not> list_ex (\<lambda>u. u_id u = i) (users d) then Inr d
      else case non_null updates of
        None \<Rightarrow> Inl NotNull
      | Some sets \<Rightarrow>
          let write = (\<lambda>u. foldl set_user_column u sets) in
          if list_ex (\<lambda>(c, v). c = Email) sets \<and>
             list_ex (\<lambda>u. u_id u = i \<and>
                        list_ex (\<lambda>w. u_id w \<noteq> i \<and> u_email w = u_email (write u)) (users d))
               (users d)
          then Inl Unique
          else Inr (d\<lparr>users := map (\<lambda>u. if u_id u = i then write u else u) (users d)\<rparr>))"

text \<open>A row of \<^verbatim>\<open>SELECT * FROM tasks\<close> as JSON.\<close>

definition task_json :: "task \<Rightarrow> json" where
  "task_json t =
     JObj [(''id'', JNum (t_id t)), (''user_id'', JNum (t_user_id t)), (''title'', JStr (t_title t)),
           (''description'', nullable (t_description t)), (''status'', nullable (t_status t)),
           (''created_at'', JTime (t_created_at t)), (''updated_at'', JTime (t_updated_at t))]"

text \<open>
  \<^verbatim>\<open>INSERT INTO tasks (user_id, title, description, status) VALUES (?, ?, ?, ?)\<close>. The
  title is NOT NULL. The foreign key on user_id is declared but SQLite does not enforce
  foreign keys unless a pragma turns them on, and the program sets none.
\<close>

definition run_insert_tasks ::
  "int \<Rightarrow> string option \<Rightarrow> string option \<Rightarrow> string option \<Rightarrow> nat \<Rightarrow> db \<Rightarrow> sql_error + int \<times> db" where
  "run_insert_tasks uid title description st now d =
     (case title of
        None \<Rightarrow> Inl NotNull
      | Some ti \<Rightarrow>
          let i = next_rowid (tasks_seq d) (map t_id (tasks d)) in
          Inr (i, d\<lparr>tasks := tasks d @
                       [\<lparr>t_id = i, t_user_id = uid, t_title = ti, t_description = description,
                         t_status = st, t_created_at = now, t_updated_at = now\<rparr>],
                     tasks_seq := i\<rparr>))"

text \<open>\<^verbatim>\<open>SELECT * FROM tasks WHERE id = ?\<close>, first row.\<close>

fun tasks_by_id :: "int option \<Rightarrow> db \<Rightarrow> task option" where
  "tasks_by_id None d = None"
| "tasks_by_id (Some i) d = find (\<lambda>t. t_id t = i) (tasks d)"

text \<open>\<^verbatim>\<open>SELECT * FROM tasks WHERE id = ? AND user_id = ?\<close>, first row.\<close>

fun tasks_by_id_owner :: "int option \<Rightarrow> int \<Rightarrow> db \<Rightarrow> task option" where
  "tasks_by_id_owner None uid d = None"
| "tasks_by_id_owner (Some i) uid d = find (\<lambda>t. t_id t = i \<and> t_user_id t = uid) (tasks d)"

text \<open>
  \<^verbatim>\<open>SELECT * FROM tasks WHERE user_id = ? ORDER BY created_at DESC\<close>, all rows. The
  sort is on created_at alone: rows with the same created_at come out in the order of the
  table scan, that is by rowid, oldest first.
\<close>

definition tasks_by_owner :: "int \<Rightarrow> db \<Rightarrow> task list" where
  "tasks_by_owner uid d =
     sort_key (\<lambda>t. - int (t_created_at t)) (filter (\<lambda>t. t_user_id t = uid) (tasks d))"

datatype task_column = Title | Description | Status | Updated_at

text \<open>One assignment of a SET clause: a bound value, or \<^verbatim>\<open>updated_at = CURRENT_TIMESTAMP\<close>.\<close>

fun set_task_column :: "nat \<Rightarrow> task \<Rightarrow> task_column \<times> string option \<Rightarrow> task" where
  "set_task_column now t (Title, v) = (case v of Some s \<Rightarrow> t\<lparr>t_title := s\<rparr> | None \<Rightarrow> t)"
| "set_task_column now t (Description, v) = t\<lparr>t_description := v\<rparr>"
| "set_task_column now t (Status, v) = t\<lparr>t_status := v\<rparr>"
| "set_task_column now t (Updated_at, v) = t\<lparr>t_updated_at := now\<rparr>"

text \<open>
  \<^verbatim>\<open>UPDATE tasks SET ... WHERE id = ? AND user_id = ?\<close>; the result carries
  \<^verbatim>\<open>this.changes\<close>, the number of rows the WHERE clause matched. A NULL title fails.
\<close>

definition run_update_tasks ::
  "(task_column \<times> string option) list \<Rightarrow> nat \<Rightarrow> int option \<Rightarrow> int \<Rightarrow> db \<Rightarrow> sql_error + nat \<times> db" where
  "run_update_tasks updates now i uid d =
     (let hit = (\<lambda>t. Some (t_id t) = i \<and> t_user_id t = uid) in
      if list_ex hit (tasks d) \<and> list_ex (\<lambda>(c, v). c = Title \<and> v = None) updates
      then Inl NotNull
      else Inr (length (filter hit (tasks d)),
                d\<lparr>tasks := map (\<lambda>t. if hit t then foldl (set_task_column now) t updates else t)
                                (tasks d)\<rparr>))"

text \<open>\<^verbatim>\<open>DELETE FROM tasks WHERE id = ? AND user_id = ?\<close>, with \<^verbatim>\<open>this.changes\<close>.\<close>

definition run_delete_tasks :: "int option \<Rightarrow> int \<Rightarrow> db \<Rightarrow> nat \<times> db" where
  "run_delete_tasks i uid d =
     (let hit = (\<lambda>t. Some (t_id t) = i \<and> t_user_id t = uid) in
      (length (filter hit (tasks d)), d\<lparr>tasks := filter (\<lambda>t. \<not> hit t) (tasks d)\<rparr>))"

section \<open>The session guard\<close>

text \<open>\<^verbatim>\<open>String.prototype.split\<close> with a separator of one character.\<close>

fun split :: "char \<Rightarrow> string \<Rightarrow> string list" where
  "split c [] = [[]]"
| "split c (x # xs) =
     (if x = c then [] # split c xs
      else (case split c xs of [] \<Rightarrow> [[x]] | y # ys \<Rightarrow> (x # y) # ys))"

text \<open>\<^verbatim>\<open>authHeader && authHeader.split(' ')[1]\<close>; \<open>None\<close> is \<^verbatim>\<open>undefined\<close>.\<close>

definition header_token :: "string option \<Rightarrow> string option" where
  "header_token authHeader =
     (case authHeader of
        None \<Rightarrow> None
      | Some h \<Rightarrow>
          if h = [] then Some []
          else (case split CHR '' '' h of a # t # rest \<Rightarrow> Some t | _ \<Rightarrow> None))"

text \<open>
  The middleware: \<open>Inl\<close> is the response it sends itself, \<open>Inr\<close> the identity it stores in
  \<^verbatim>\<open>req.user\<close> before calling \<^verbatim>\<open>next()\<close>.
\<close>

definition authenticateToken :: "libs \<Rightarrow> nat \<Rightarrow> string option \<Rightarrow> response + claims" where
  "authenticateToken L now authHeader =
     (case header_token authHeader of
        None \<Rightarrow> Inl (error_response 401 ''Access token required'')
      | Some token \<Rightarrow>
          if token = [] then Inl (error_response 401 ''Access token required'')
          else (case jwt_verify L token JWT_SECRET now of
                  Inl err \<Rightarrow> Inl (error_response 403 ''Invalid or expired token'')
                | Inr user \<Rightarrow> Inr user))"

section \<open>User routes\<close>

text \<open>The payload both \<^verbatim>\<open>jwt.sign\<close> calls build: \<^verbatim>\<open>{ id: ..., email: ... }\<close>.\<close>

definition token_payload :: "int \<Rightarrow> json option \<Rightarrow> (string \<times> json) list" where
  "token_payload i email = [(''id'', JNum i)] @ property ''email'' email"

text \<open>
  POST /api/auth/signup. \<open>now\<close> is the clock of the request and \<open>salt\<close> the salt bcrypt
  draws for it.
\<close>

definition signup :: "libs \<Rightarrow> nat \<Rightarrow> string \<Rightarrow> body \<Rightarrow> db \<Rightarrow> response \<times> db" where
  "signup L now salt b d =
     (let email = b ''email''; password = b ''password''; name = b ''name'' in
      if \<not> truthy email \<or> \<not> truthy password \<or> \<not> truthy name
      then (error_response 400 ''Email, password, and name are required'', d)
      else
        case hash_field L password 10 salt of
          None \<Rightarrow> (error_response 500 ''Server error'', d)
        | Some hashedPassword \<Rightarrow>
            (case run_insert_users (bind L email) (Some hashedPassword) (bind L name) now d of
               Inl err \<Rightarrow>
                 if includes_UNIQUE err then (error_response 409 ''Email already exists'', d)
                 else (error_response 500 ''Database error'', d)
             | Inr (lastID, d') \<Rightarrow>
                 let token = jwt_sign L (token_payload lastID (js email)) JWT_SECRET ''24h'' now in
                 (\<lparr>status = 201,
                   content = JObj [(''message'', JStr ''User created successfully''),
                                   (''token'', JStr token),
                                   (''user'', JObj ([(''id'', JNum lastID)] @ property ''email'' (js email)
                                                    @ property ''name'' (js name)))]\<rparr>,
                  d')))"

text \<open>POST /api/auth/login.\<close>

definition login :: "libs \<Rightarrow> nat \<Rightarrow> body \<Rightarrow> db \<Rightarrow> response" where
  "login L now b d =
     (let email = b ''email''; password = b ''password'' in
      if \<not> truthy email \<or> \<not> truthy password
      then error_response 400 ''Email and password are required''
      else
        case users_by_email (bind L email) d of
          None \<Rightarrow> error_response 401 ''Invalid credentials''
        | Some user \<Rightarrow>
            (case compare_field L password (u_password user) of
               None \<Rightarrow> error_response 500 ''Server error''
             | Some validPassword \<Rightarrow>
                 if \<not> validPassword then error_response 401 ''Invalid credentials''
                 else
                   let token = jwt_sign L (token_payload (u_id user) (Some (JStr (u_email user))))
                                 JWT_SECRET ''24h'' now in
                   ok_response
                     (JObj [(''message'', JStr ''Login successful''),
                            (''token'', JStr token),
                            (''user'', JObj [(''id'', JNum (u_id user)),
                                             (''email'', JStr (u_email user)),
                                             (''name'', JStr (u_name user))])])))"

text \<open>GET /api/profile, behind the guard: \<open>user\<close> is \<^verbatim>\<open>req.user\<close>.\<close>

definition getProfile :: "claims \<Rightarrow> db \<Rightarrow> response" where
  "getProfile user d =
     (case users_public_by_id (c_id user) d of
        None \<Rightarrow> error_response 404 ''User not found''
      | Some row \<Rightarrow> ok_response (JObj [(''user'', row)]))"

text \<open>PUT /api/profile, behind the guard.\<close>

definition updateProfile :: "libs \<Rightarrow> claims \<Rightarrow> body \<Rightarrow> db \<Rightarrow> response \<times> db" where
  "updateProfile L user b d =
     (let name = b ''name''; email = b ''email'' in
      if \<not> truthy name \<and> \<not> truthy email
      then (error_response 400 ''At least one field (name or email) is required'', d)
      else
        let updates = (if truthy name then [(Name, bind L name)] else [])
                    @ (if truthy email then [(Email, bind L email)] else [])
        in case run_update_users updates (c_id user) d of
             Inl err \<Rightarrow>
               if includes_UNIQUE err then (error_response 409 ''Email already exists'', d)
               else (error_response 500 ''Database error'', d)
           | Inr d' \<Rightarrow>
               (ok_response (JObj ([(''message'', JStr ''Profile updated successfully'')]
                                    @ property ''user'' (users_public_by_id (c_id user) d'))),
                d'))"

section \<open>Task routes\<close>

text \<open>POST /api/tasks, behind the guard.\<close>

definition createTask :: "libs \<Rightarrow> claims \<Rightarrow> nat \<Rightarrow> body \<Rightarrow> db \<Rightarrow> response \<times> db" where
  "createTask L user now b d =
     (let title = b ''title''; description = b ''description''; st = b ''status'' in
      if \<not> truthy title then (error_response 400 ''Title is required'', d)
      else
        case run_insert_tasks (c_id user) (bind L title) (bind L (js_or description Null))
               (bind L (js_or st (Str ''pending''))) now d of
          Inl err \<Rightarrow> (error_response 500 ''Database error'', d)
        | Inr (lastID, d') \<Rightarrow>
            (\<lparr>status = 201,
              content = JObj ([(''message'', JStr ''Task created successfully'')]
                              @ property ''task'' (map_option task_json (tasks_by_id (Some lastID) d')))\<rparr>,
             d'))"

text \<open>GET /api/tasks, behind the guard.\<close>

definition listTasks :: "claims \<Rightarrow> db \<Rightarrow> response" where
  "listTasks user d = ok_response (JObj [(''tasks'', JArr (map task_json (tasks_by_owner (c_id user) d)))])"

text \<open>GET /api/tasks/:id, behind the guard: \<open>pid\<close> is \<^verbatim>\<open>req.params.id\<close>.\<close>

definition getTask :: "libs \<Rightarrow> claims \<Rightarrow> string \<Rightarrow> db \<Rightarrow> response" where
  "getTask L user pid d =
     (case tasks_by_id_owner (sql_integer L pid) (c_id user) d of
        None \<Rightarrow> error_response 404 ''Task not found''
      | Some t \<Rightarrow> ok_response (JObj [(''task'', task_json t)]))"

text \<open>PUT /api/tasks/:id, behind the guard.\<close>

definition updateTask :: "libs \<Rightarrow> claims \<Rightarrow> string \<Rightarrow> nat \<Rightarrow> body \<Rightarrow> db \<Rightarrow> response \<times> db" where
  "updateTask L user pid now b d =
     (let title = b ''title''; description = b ''description''; st = b ''status'' in
      if \<not> truthy title \<and> \<not> truthy description \<and> \<not> truthy st
      then (error_response 400 ''At least one field is required'', d)
      else
        let updates = (if truthy title then [(Title, bind L title)] else [])
                    @ (if description \<noteq> Undefined then [(Description, bind L description)] else [])
                    @ (if truthy st then [(Status, bind L st)] else [])
                    @ [(Updated_at, None)]
        in case run_update_tasks updates now (sql_integer L pid) (c_id user) d of
             Inl err \<Rightarrow> (error_response 500 ''Database error'', d)
           | Inr (changes, d') \<Rightarrow>
               if changes = 0 then (error_response 404 ''Task not found'', d')
               else
                 (ok_response (JObj ([(''message'', JStr ''Task updated successfully'')]
                                      @ property ''task'' (map_option task_json
                                                         (tasks_by_id (sql_integer L pid) d')))),
                  d'))"

text \<open>DELETE /api/tasks/:id, behind the guard.\<close>

definition deleteTask :: "libs \<Rightarrow> claims \<Rightarrow> string \<Rightarrow> db \<Rightarrow> response \<times> db" where
  "deleteTask L user pid d =
     (case run_delete_tasks (sql_integer L pid) (c_id user) d of
        (changes, d') \<Rightarrow>
          if changes = 0 then (error_response 404 ''Task not found'', d')
          else (ok_response (JObj [(''message'', JStr ''Task deleted successfully'')]), d'))"

section \<open>Schema constraints\<close>

text \<open>
  What the schema's PRIMARY KEY and UNIQUE constraints keep true of the tables, and what
  AUTOINCREMENT keeps true of its counters.
\<close>

definition constraints :: "db \<Rightarrow> bool" where
  "constraints d \<longleftrightarrow>
     distinct (map u_id (users d)) \<and> distinct (map u_email (users d)) \<and>
     distinct (map t_id (tasks d)) \<and>
     list_all (\<lambda>u. u_id u \<le> users_seq d) (users d) \<and>
     list_all (\<lambda>t. t_id t \<le> tasks_seq d) (tasks d)"

text \<open>
  The database with the password column overwritten, the row of user \<open>i\<close> holding
  \<open>g i\<close>: what an observer of the responses must not be able to tell from the database
  itself.
\<close>

definition with_passwords :: "(int \<Rightarrow> string) \<Rightarrow> db \<Rightarrow> db" where
  "with_passwords g d = d\<lparr>users := map (\<lambda>u. u\<lparr>u_password := g (u_id u)\<rparr>) (users d)\<rparr>"

section \<open>A small instance of the libraries\<close>

text \<open>
  Stand-ins for bcrypt, jsonwebtoken, the driver's binding and SQLite's text-to-integer
  conversion, simple enough to be evaluated: the hash is the salt, a dollar sign and the
  password; a token is the secret, a dot, the user id in unary, a dot and the email; a
  text parameter is an integer when it is a run of decimal digits; a bound value that is
  not a string is stored as the text [object Object].
\<close>

definition toy_hash :: "string \<Rightarrow> nat \<Rightarrow> string \<Rightarrow> string option" where
  "toy_hash p r salt = Some (salt @ ''$'' @ p)"

definition toy_compare :: "string \<Rightarrow> string \<Rightarrow> bool option" where
  "toy_compare p h = Some (drop 1 (dropWhile (\<lambda>c. c \<noteq> CHR ''$'') h) = p)"

fun toy_sign :: "(string \<times> json) list \<Rightarrow> string \<Rightarrow> string \<Rightarrow> nat \<Rightarrow> string" where
  "toy_sign [(k, JNum i), (k', JStr e)] s expiresIn t = s @ ''.'' @ replicate (nat i) CHR ''x'' @ ''.'' @ e"
| "toy_sign p s expiresIn t = s @ ''.''"

definition toy_verify :: "string \<Rightarrow> string \<Rightarrow> nat \<Rightarrow> jwt_error + claims" where
  "toy_verify token s t =
     (if take (length s + 1) token = s @ ''.''
      then
        let r = drop (length s + 1) token in
        Inr \<lparr>c_id = int (length (takeWhile (\<lambda>c. c = CHR ''x'') r)),
             c_email = drop 1 (dropWhile (\<lambda>c. c = CHR ''x'') r),
             c_iat = t, c_exp = t + 86400\<rparr>
      else Inl JsonWebTokenError)"

definition digit :: "char \<Rightarrow> bool" where
  "digit c \<longleftrightarrow> c \<in> set ''0123456789''"

definition toy_integer :: "string \<Rightarrow> int option" where
  "toy_integer s =
     (if s \<noteq> [] \<and> list_all digit s
      then Some (foldl (\<lambda>n c. 10 * n + (of_char c - 48)) 0 s) else None)"

definition toy_text :: "field \<Rightarrow> string option" where
  "toy_text f = Some ''[object Object]''"

definition toy_libs :: libs where
  "toy_libs = \<lparr>bcrypt_hash = toy_hash, bcrypt_compare = toy_compare, jwt_sign = toy_sign,
               jwt_verify = toy_verify, sql_integer = toy_integer, sql_text = toy_text\<rparr>"

text \<open>Two users, ann with tasks 1 and 3 and bob with task 2.\<close>

definition ann :: claims where
  "ann = \<lparr>c_id = 1, c_email = ''a@x.com'', c_iat = 0, c_exp = 86400\<rparr>"

definition bob :: claims where
  "bob = \<lparr>c_id = 2, c_email = ''b@x.com'', c_iat = 0, c_exp = 86400\<rparr>"

definition sample_db :: db where
  "sample_db =
     \<lparr>users = [\<lparr>u_id = 1, u_email = ''a@x.com'', u_password = ''s1$p1'', u_name = ''A'', u_created_at = 5\<rparr>,
               \<lparr>u_id = 2, u_email = ''b@x.com'', u_password = ''s2$p2'', u_name = ''B'', u_created_at = 7\<rparr>],
      tasks = [\<lparr>t_id = 1, t_user_id = 1, t_title = ''buy milk'', t_description = None,
                t_status = Some ''pending'', t_created_at = 6, t_updated_at = 6\<rparr>,
               \<lparr>t_id = 2, t_user_id = 2, t_title = ''pay rent'', t_description = Some ''monthly'',
                t_status = Some ''pending'', t_created_at = 8, t_updated_at = 8\<rparr>,
               \<lparr>t_id = 3, t_user_id = 1, t_title = ''call home'', t_description = None,
                t_status = Some ''done'', t_created_at = 9, t_updated_at = 10\<rparr>],
      users_seq = 2, tasks_seq = 3\<rparr>"

text \<open>Request bodies: \<open>fields [(k, v), ...]\<close> has the listed properties and no other.\<close>

fun fields :: "(string \<times> field) list \<Rightarrow> body" where
  "fields [] k = Undefined"
| "fields ((k', v) # kvs) k = (if k = k' then v else fields kvs k)"

section \<open>The token in the Authorization header\<close>

lemma split_nospace: "c \<notin> set w \<Longrightarrow> split c w = [w]"
  by (induction w) auto

lemma split_at: "c \<notin> set w \<Longrightarrow> split c (w @ c # r) = w # split c r"
  by (induction w) auto

lemma split_hd: "\<exists>ys. split c r = takeWhile (\<lambda>x. x \<noteq> c) r # ys"
  by (induction r) (auto split: list.splits)

lemma header_token_char:
  "header_token (Some h) =
     (if h = [] then Some []
      else if CHR '' '' \<in> set h
      then Some (takeWhile (\<lambda>c. c \<noteq> CHR '' '') (tl (dropWhile (\<lambda>c. c \<noteq> CHR '' '') h)))
      else None)"
proof (cases "CHR '' '' \<in> set h")
  case False
  then show ?thesis by (simp add: header_token_def split_nospace)
next
  case True
  then obtain w r where h: "h = w @ CHR '' '' # r" and w: "CHR '' '' \<notin> set w"
    by (meson split_list_first)
  obtain ys where ys: "split CHR '' '' r = takeWhile (\<lambda>x. x \<noteq> CHR '' '') r # ys"
    using split_hd by blast
  have "dropWhile (\<lambda>c. c \<noteq> CHR '' '') h = CHR '' '' # r"
    using h w by (auto simp: dropWhile_append3)
  then show ?thesis using h w ys by (simp add: header_token_def split_at)
qed

lemma header_token_segment:
  assumes "CHR '' '' \<notin> set w"
  shows "header_token (Some (w @ CHR '' '' # r)) = Some (takeWhile (\<lambda>c. c \<noteq> CHR '' '') r)"
proof -
  have "dropWhile (\<lambda>c. c \<noteq> CHR '' '') (w @ CHR '' '' # r) = CHR '' '' # r"
    using assms by (auto simp: dropWhile_append3)
  then show ?thesis by (simp add: header_token_char)
qed

lemma header_token_nospace:
  "CHR '' '' \<notin> set h \<Longrightarrow> header_token (Some h) = None \<or> header_token (Some h) = Some []"
  by (simp add: header_token_char)

text \<open>
  C10. The guard never looks at the scheme. Whatever the header, the token is the text
  between its first and its second space (to the end when there is no second space):
  a header made of any word without a space, one space and a token is judged by
  \<^verbatim>\<open>jwt.verify\<close> on that token alone, so it is accepted when the token is valid. A header
  without a space, one that ends after its first space, or one with two spaces in a row
  after the first word is answered with 401, access token required.
\<close>

theorem guard_takes_second_segment:
  "header_token (Some h) =
     (if h = [] then Some []
      else if CHR '' '' \<in> set h
      then Some (takeWhile (\<lambda>c. c \<noteq> CHR '' '') (tl (dropWhile (\<lambda>c. c \<noteq> CHR '' '') h)))
      else None)
   \<and> (CHR '' '' \<notin> set w \<and> CHR '' '' \<notin> set token \<and> token \<noteq> [] \<longrightarrow>
        authenticateToken L now (Some (w @ '' '' @ token)) =
          (case jwt_verify L token JWT_SECRET now of
             Inl err \<Rightarrow> Inl (error_response 403 ''Invalid or expired token'')
           | Inr user \<Rightarrow> Inr user))
   \<and> (CHR '' '' \<notin> set w \<and> CHR '' '' \<notin> set token \<and> jwt_verify L token JWT_SECRET now = Inr user
        \<and> token \<noteq> [] \<longrightarrow>
        authenticateToken L now (Some (w @ '' '' @ token)) = Inr user)
   \<and> (CHR '' '' \<notin> set h \<longrightarrow>
        authenticateToken L now (Some h) = Inl (error_response 401 ''Access token required''))
   \<and> (CHR '' '' \<notin> set w \<longrightarrow>
        authenticateToken L now (Some (w @ '' '')) = Inl (error_response 401 ''Access token required'')
        \<and> authenticateToken L now (Some (w @ ''  '' @ rest))
            = Inl (error_response 401 ''Access token required''))"
proof (intro conjI impI)
  show "header_token (Some h) =
     (if h = [] then Some []
      else if CHR '' '' \<in> set h
      then Some (takeWhile (\<lambda>c. c \<noteq> CHR '' '') (tl (dropWhile (\<lambda>c. c \<noteq> CHR '' '') h)))
      else None)"
    by (rule header_token_char)
next
  assume a: "CHR '' '' \<notin> set w \<and> CHR '' '' \<notin> set token \<and> token \<noteq> []"
  then have "header_token (Some (w @ '' '' @ token)) = Some token"
    using header_token_segment [of w token] by auto
  with a show "authenticateToken L now (Some (w @ '' '' @ token)) =
          (case jwt_verify L token JWT_SECRET now of
             Inl err \<Rightarrow> Inl (error_response 403 ''Invalid or expired token'')
           | Inr user \<Rightarrow> Inr user)"
    by (simp add: authenticateToken_def)
next
  assume a: "CHR '' '' \<notin> set w \<and> CHR '' '' \<notin> set token \<and> jwt_verify L token JWT_SECRET now = Inr user
        \<and> token \<noteq> []"
  then have "header_token (Some (w @ '' '' @ token)) = Some token"
    using header_token_segment [of w token] by auto
  with a show "authenticateToken L now (Some (w @ '' '' @ token)) = Inr user"
    by (simp add: authenticateToken_def)
next
  assume "CHR '' '' \<notin> set h"
  then show "authenticateToken L now (Some h) = Inl (error_response 401 ''Access token required'')"
    using header_token_nospace [of h] by (auto simp: authenticateToken_def)
next
  assume a: "CHR '' '' \<notin> set w"
  then show "authenticateToken L now (Some (w @ '' '')) = Inl (error_response 401 ''Access token required'')"
    using header_token_segment [of w "[]"] by (simp add: authenticateToken_def)
next
  assume a: "CHR '' '' \<notin> set w"
  then show "authenticateToken L now (Some (w @ ''  '' @ rest))
            = Inl (error_response 401 ''Access token required'')"
    using header_token_segment [of w "CHR '' '' # rest"] by (simp add: authenticateToken_def)
qed

theorem guard_takes_second_segment_witness:
  "header_token (Some ''AnyWord tok extra'') = Some ''tok''
   \<and> authenticateToken toy_libs 31 (Some ''AnyWord your-secret-key-change-in-production.x.a@x.com'')
       = Inr \<lparr>c_id = 1, c_email = ''a@x.com'', c_iat = 31, c_exp = 86431\<rparr>
   \<and> authenticateToken toy_libs 31 (Some ''AnyWord forged'')
       = Inl (error_response 403 ''Invalid or expired token'')
   \<and> authenticateToken toy_libs 31 (Some ''Bearer'') = Inl (error_response 401 ''Access token required'')
   \<and> authenticateToken toy_libs 31 (Some ''Bearer '') = Inl (error_response 401 ''Access token required'')
   \<and> authenticateToken toy_libs 31 (Some ''Bearer  your-secret-key-change-in-production.x.a@x.com'')
       = Inl (error_response 401 ''Access token required'')"
proof -
  have v: "jwt_verify toy_libs ''your-secret-key-change-in-production.x.a@x.com'' JWT_SECRET 31
             = Inr \<lparr>c_id = 1, c_email = ''a@x.com'', c_iat = 31, c_exp = 86431\<rparr>"
    by (simp add: toy_libs_def toy_verify_def JWT_SECRET_def)
  have f: "jwt_verify toy_libs ''forged'' JWT_SECRET 31 = Inl JsonWebTokenError"
    by (simp add: toy_libs_def toy_verify_def JWT_SECRET_def)
  note t = guard_takes_second_segment
  show ?thesis
    using t [of "''AnyWord tok extra''" "''AnyWord''" "''your-secret-key-change-in-production.x.a@x.com''"
               toy_libs 31 "\<lparr>c_id = 1, c_email = ''a@x.com'', c_iat = 31, c_exp = 86431\<rparr>" "''your-secret-key-change-in-production.x.a@x.com''"]
          t [of "''Bearer''" "''AnyWord''" "''forged''" toy_libs 31 ann "[]"]
          t [of "''Bearer''" "''Bearer''" "''forged''" toy_libs 31 ann "''your-secret-key-change-in-production.x.a@x.com''"]
          v f
    by simp
qed

section \<open>The update of a task without fields\<close>

text \<open>
  C5. A PUT /api/tasks/:id whose body sets none of title, description and status is
  answered with 400 (validation error) and the database is left as it was, for every
  caller, path parameter and database; so no row's updated_at is refreshed.
\<close>

theorem updateTask_no_fields:
  assumes "b ''title'' = Undefined" and "b ''description'' = Undefined" and "b ''status'' = Undefined"
  shows "updateTask L user pid now b d = (error_response 400 ''At least one field is required'', d)"
  using assms by (simp add: updateTask_def)

theorem updateTask_no_fields_witness:
  "updateTask toy_libs ann ''1'' 20 (fields []) sample_db
     = (error_response 400 ''At least one field is required'', sample_db)"
  using updateTask_no_fields [of "fields []" toy_libs ann "''1''" 20 sample_db] by simp

section \<open>Tasks of another owner\<close>


lemma no_row_of_other_owner:
  assumes "distinct (map t_id ts)" and "t \<in> set ts" and "t_user_id t \<noteq> uid"
  shows "\<not> (\<exists>x \<in> set ts. t_id x = t_id t \<and> t_user_id x = uid)"
proof
  assume "\<exists>x \<in> set ts. t_id x = t_id t \<and> t_user_id x = uid"
  then obtain x where x: "x \<in> set ts" "t_id x = t_id t" "t_user_id x = uid" by blast
  from assms(1) have "inj_on t_id (set ts)" by (simp add: distinct_map)
  with x(1,2) assms(2) have "x = t" by (auto dest: inj_onD)
  with x(3) assms(3) show False by simp
qed

lemma no_hit_by_id_owner:
  "\<not> (\<exists>x \<in> set (tasks d). Some (t_id x) = i \<and> t_user_id x = uid) \<Longrightarrow> tasks_by_id_owner i uid d = None"
  by (cases i) (auto simp: find_None_iff)

lemma no_hit_delete:
  assumes "\<not> (\<exists>x \<in> set (tasks d). Some (t_id x) = i \<and> t_user_id x = uid)"
  shows "run_delete_tasks i uid d = (0, d)"
proof -
  have "filter (\<lambda>t. \<not> (Some (t_id t) = i \<and> t_user_id t = uid)) (tasks d) = tasks d"
    using assms by (auto simp: filter_id_conv)
  moreover have "filter (\<lambda>t. Some (t_id t) = i \<and> t_user_id t = uid) (tasks d) = []"
    using assms by (auto simp: filter_empty_conv)
  ultimately show ?thesis by (simp add: run_delete_tasks_def)
qed

lemma no_hit_update:
  assumes "\<not> (\<exists>x \<in> set (tasks d). Some (t_id x) = i \<and> t_user_id x = uid)"
  shows "run_update_tasks updates now i uid d = Inr (0, d)"
proof -
  let ?hit = "\<lambda>t. Some (t_id t) = i \<and> t_user_id t = uid"
  have "map (\<lambda>t. if ?hit t then foldl (set_task_column now) t updates else t) (tasks d) = tasks d"
    using assms by (intro map_idI) auto
  moreover have "filter ?hit (tasks d) = []"
    using assms by (auto simp: filter_empty_conv)
  moreover have "\<not> list_ex ?hit (tasks d)"
    using assms by (auto simp: list_ex_iff)
  ultimately show ?thesis by (simp add: run_update_tasks_def)
qed

lemma absent_no_hit:
  "tasks_by_id i d = None \<Longrightarrow> \<not> (\<exists>x \<in> set (tasks d). Some (t_id x) = i \<and> t_user_id x = uid)"
  by (cases i) (auto simp: find_None_iff)

lemma no_hit_getTask:
  "\<not> (\<exists>x \<in> set (tasks d). Some (t_id x) = sql_integer L pid \<and> t_user_id x = c_id user)
   \<Longrightarrow> getTask L user pid d = error_response 404 ''Task not found''"
  by (simp add: getTask_def no_hit_by_id_owner)

lemma no_hit_deleteTask:
  "\<not> (\<exists>x \<in> set (tasks d). Some (t_id x) = sql_integer L pid \<and> t_user_id x = c_id user)
   \<Longrightarrow> deleteTask L user pid d = (error_response 404 ''Task not found'', d)"
  by (simp add: deleteTask_def no_hit_delete)

lemma no_hit_updateTask:
  "\<not> (\<exists>x \<in> set (tasks d). Some (t_id x) = sql_integer L pid \<and> t_user_id x = c_id user)
   \<Longrightarrow> updateTask L user pid now b d =
         (if \<not> truthy (b ''title'') \<and> \<not> truthy (b ''description'') \<and> \<not> truthy (b ''status'')
          then error_response 400 ''At least one field is required''
          else error_response 404 ''Task not found'', d)"
  by (simp add: updateTask_def no_hit_update Let_def)

text \<open>
  C1, as the code has it. When the task named by the path parameter belongs to another
  user, GET and DELETE answer 404, task not found; PUT answers 404 when its body passes
  validation and 400 when it sets no field, since the body is checked before any row is
  looked for. In each case the response, and the database that is left, are those of a
  path parameter that names no task at all.
\<close>

theorem foreign_task_as_absent:
  assumes "distinct (map t_id (tasks d))"
      and "t \<in> set (tasks d)" and "t_user_id t \<noteq> c_id user" and "sql_integer L pid = Some (t_id t)"
      and "tasks_by_id (sql_integer L absent) d = None"
  shows "getTask L user pid d = error_response 404 ''Task not found''
       \<and> getTask L user absent d = getTask L user pid d
       \<and> deleteTask L user pid d = (error_response 404 ''Task not found'', d)
       \<and> deleteTask L user absent d = deleteTask L user pid d
       \<and> updateTask L user pid now b d =
           (if \<not> truthy (b ''title'') \<and> \<not> truthy (b ''description'') \<and> \<not> truthy (b ''status'')
            then error_response 400 ''At least one field is required''
            else error_response 404 ''Task not found'', d)
       \<and> updateTask L user absent now b d = updateTask L user pid now b d"
proof -
  have own: "\<not> (\<exists>x \<in> set (tasks d). Some (t_id x) = sql_integer L pid \<and> t_user_id x = c_id user)"
    using no_row_of_other_owner [OF assms(1-3)] assms(4) by auto
  have none: "\<not> (\<exists>x \<in> set (tasks d). Some (t_id x) = sql_integer L absent \<and> t_user_id x = c_id user)"
    using assms(5) by (rule absent_no_hit)
  show ?thesis
    by (simp only: no_hit_getTask [OF own] no_hit_getTask [OF none]
        no_hit_deleteTask [OF own] no_hit_deleteTask [OF none]
        no_hit_updateTask [OF own] no_hit_updateTask [OF none] simp_thms)
qed

theorem foreign_task_as_absent_witness:
  "getTask toy_libs bob ''1'' sample_db = error_response 404 ''Task not found''
   \<and> getTask toy_libs bob ''99'' sample_db = getTask toy_libs bob ''1'' sample_db
   \<and> deleteTask toy_libs bob ''1'' sample_db = (error_response 404 ''Task not found'', sample_db)
   \<and> deleteTask toy_libs bob ''99'' sample_db = deleteTask toy_libs bob ''1'' sample_db
   \<and> updateTask toy_libs bob ''1'' 20 (fields [(''title'', Str ''mine'')]) sample_db
       = (error_response 404 ''Task not found'', sample_db)
   \<and> updateTask toy_libs bob ''99'' 20 (fields [(''title'', Str ''mine'')]) sample_db
       = updateTask toy_libs bob ''1'' 20 (fields [(''title'', Str ''mine'')]) sample_db"
proof -
  have i1: "sql_integer toy_libs ''1'' = Some 1" and i99: "sql_integer toy_libs ''99'' = Some 99"
    by (simp_all add: toy_libs_def toy_integer_def digit_def)
  show ?thesis
    using foreign_task_as_absent
      [of sample_db
          "\<lparr>t_id = 1, t_user_id = 1, t_title = ''buy milk'', t_description = None,
            t_status = Some ''pending'', t_created_at = 6, t_updated_at = 6\<rparr>"
          bob toy_libs "''1''" "''99''" 20 "fields [(''title'', Str ''mine'')]"]
    by (simp add: i1 i99 sample_db_def bob_def)
qed

text \<open>
  C1 as stated fails for PUT: bob's update of ann's task 1 with an empty body is answered
  with 400, not with 404.
\<close>

theorem foreign_update_not_found_counterexample:
  "map_option t_user_id (tasks_by_id (sql_integer toy_libs ''1'') sample_db) = Some 1
   \<and> c_id bob = 2
   \<and> status (fst (updateTask toy_libs bob ''1'' 20 (fields []) sample_db)) = 400
   \<and> fst (updateTask toy_libs bob ''1'' 20 (fields []) sample_db)
       \<noteq> error_response 404 ''Task not found''"
  by (simp add: toy_libs_def toy_integer_def digit_def sample_db_def bob_def updateTask_def
      error_response_def)

section \<open>Failed logins\<close>

lemma compare_field_string:
  "compare_field L f h = Some v \<Longrightarrow> \<exists>p. f = Str p \<and> bcrypt_compare L p h = Some v"
  by (cases f) simp_all

lemma compare_field_not_string: "(\<forall>p. f \<noteq> Str p) \<Longrightarrow> compare_field L f h = None"
  by (cases f) simp_all

text \<open>
  C2, as the code has it. Of the logins that pass validation (email and password truthy),
  one for an email that no user has is answered with 401 and the error text "Invalid
  credentials", whatever the password; one for a registered email whose password
  \<^verbatim>\<open>bcrypt.compare\<close> finds not to match the stored hash gets the same response. The
  two failures cannot be told apart. A registered email is only answered otherwise, with
  500 and "Server error", when \<^verbatim>\<open>bcrypt.compare\<close> rejects, as it does for every password
  that is not a string.
\<close>

theorem login_failures_same_response:
  "(truthy (b ''email'') \<and> truthy (b ''password'') \<and> users_by_email (bind L (b ''email'')) d = None
      \<longrightarrow> login L now b d = error_response 401 ''Invalid credentials'')
   \<and> (truthy (b ''email'') \<and> truthy (b ''password'')
       \<and> users_by_email (bind L (b ''email'')) d = Some u
       \<and> compare_field L (b ''password'') (u_password u) = Some False
      \<longrightarrow> login L now b d = error_response 401 ''Invalid credentials'')
   \<and> (truthy (b ''email'') \<and> truthy (b ''password'')
       \<and> users_by_email (bind L (b ''email'')) d = Some u
       \<and> compare_field L (b ''password'') (u_password u) = None
      \<longrightarrow> login L now b d = error_response 500 ''Server error'')
   \<and> ((\<forall>p. b ''password'' \<noteq> Str p) \<longrightarrow> compare_field L (b ''password'') (u_password u) = None)"
  by (simp add: login_def compare_field_not_string)

theorem login_failures_same_response_witness:
  "login toy_libs 30 (fields [(''email'', Str ''q@x.com''), (''password'', Str ''zz'')]) sample_db
     = error_response 401 ''Invalid credentials''
   \<and> login toy_libs 30 (fields [(''email'', Str ''q@x.com''), (''password'', Num 7)]) sample_db
     = error_response 401 ''Invalid credentials''
   \<and> login toy_libs 30 (fields [(''email'', Str ''a@x.com''), (''password'', Str ''zz'')]) sample_db
     = error_response 401 ''Invalid credentials''
   \<and> login toy_libs 30 (fields [(''email'', Str ''a@x.com''), (''password'', Num 7)]) sample_db
     = error_response 500 ''Server error''"
proof -
  let ?ann = "\<lparr>u_id = 1, u_email = ''a@x.com'', u_password = ''s1$p1'', u_name = ''A'', u_created_at = 5\<rparr>"
  have none: "users_by_email (bind toy_libs (Str ''q@x.com'')) sample_db = None"
    and some: "users_by_email (bind toy_libs (Str ''a@x.com'')) sample_db = Some ?ann"
    by (simp_all add: sample_db_def)
  have wrong: "compare_field toy_libs (Str ''zz'') (u_password ?ann) = Some False"
    by (simp add: toy_libs_def toy_compare_def)
  note t = login_failures_same_response [where L = toy_libs and now = 30 and d = sample_db and u = ?ann]
  show ?thesis
    using t [where b = "fields [(''email'', Str ''q@x.com''), (''password'', Str ''zz'')]"]
      t [where b = "fields [(''email'', Str ''q@x.com''), (''password'', Num 7)]"]
      t [where b = "fields [(''email'', Str ''a@x.com''), (''password'', Str ''zz'')]"]
      t [where b = "fields [(''email'', Str ''a@x.com''), (''password'', Num 7)]"]
      none some wrong
    by simp
qed

text \<open>
  C2 as stated fails: in the sample database no user has q@x.com, ann has a@x.com with
  another password, and both logins are answered alike.
\<close>

theorem login_errors_distinguishable_counterexample:
  "users_by_email (Some ''q@x.com'') sample_db = None
   \<and> map_option u_id (users_by_email (Some ''a@x.com'') sample_db) = Some 1
   \<and> bcrypt_compare toy_libs ''zz'' ''s1$p1'' = Some False
   \<and> login toy_libs 30 (fields [(''email'', Str ''q@x.com''), (''password'', Str ''zz'')]) sample_db
     = login toy_libs 30 (fields [(''email'', Str ''a@x.com''), (''password'', Str ''zz'')]) sample_db"
  by (simp add: sample_db_def toy_libs_def toy_compare_def login_def)

section \<open>Listing tasks\<close>

lemma fold_max_bounds:
  "seq \<le> fold max ids seq \<and> (\<forall>x \<in> set ids. x \<le> fold max ids (seq::int))"
proof (induction ids arbitrary: seq)
  case Nil
  show ?case by simp
next
  case (Cons a ids)
  from Cons.IH [of "max a seq"] show ?case by auto
qed

lemma next_rowid_fresh:
  "seq < next_rowid seq ids" "x \<in> set ids \<Longrightarrow> x < next_rowid seq ids"
  using fold_max_bounds [of seq ids] by (auto simp: next_rowid_def)

lemma tasks_by_owner_mset:
  "mset (tasks_by_owner uid d) = filter_mset (\<lambda>t. t_user_id t = uid) (mset (tasks d))"
  by (simp add: tasks_by_owner_def)

lemma tasks_by_owner_set:
  "set (tasks_by_owner uid d) = {t \<in> set (tasks d). t_user_id t = uid}"
  by (simp add: tasks_by_owner_def)

lemma tasks_by_owner_length:
  "length (tasks_by_owner uid d) = length (filter (\<lambda>t. t_user_id t = uid) (tasks d))"
  by (simp add: tasks_by_owner_def)

lemma tasks_by_owner_sorted:
  "sorted_wrt (\<lambda>a b. t_created_at b \<le> t_created_at a) (tasks_by_owner uid d)"
proof -
  have "sorted (map (\<lambda>t. - int (t_created_at t)) (tasks_by_owner uid d))"
    unfolding tasks_by_owner_def by (rule sorted_sort_key)
  then show ?thesis by (simp add: sorted_map)
qed

lemma tasks_by_owner_same_second:
  "filter (\<lambda>t. t_created_at t = k) (tasks_by_owner uid d)
     = filter (\<lambda>t. t_created_at t = k) (filter (\<lambda>t. t_user_id t = uid) (tasks d))"
proof -
  have "filter (\<lambda>t. - int (t_created_at t) = - int k) (tasks_by_owner uid d)
     = filter (\<lambda>t. - int (t_created_at t) = - int k) (filter (\<lambda>t. t_user_id t = uid) (tasks d))"
    unfolding tasks_by_owner_def by (rule sort_key_stable)
  then show ?thesis by simp
qed

lemma find_new_row:
  assumes "\<forall>x \<in> set xs. \<not> P x" and "P y"
  shows "find P (xs @ [y]) = Some y"
  using assms by (induction xs) auto

lemma createTask_appends:
  assumes "truthy (b ''title'')" and "bind L (b ''title'') = Some s"
  shows "createTask L creator now b d =
           (let new = \<lparr>t_id = next_rowid (tasks_seq d) (map t_id (tasks d)), t_user_id = c_id creator,
                        t_title = s, t_description = bind L (js_or (b ''description'') Null),
                        t_status = bind L (js_or (b ''status'') (Str ''pending'')),
                        t_created_at = now, t_updated_at = now\<rparr>
            in (\<lparr>status = 201,
                 content = JObj [(''message'', JStr ''Task created successfully''),
                                 (''task'', task_json new)]\<rparr>,
                d\<lparr>tasks := tasks d @ [new], tasks_seq := t_id new\<rparr>))"
proof -
  let ?i = "next_rowid (tasks_seq d) (map t_id (tasks d))"
  have "\<forall>x \<in> set (tasks d). t_id x \<noteq> ?i"
    using next_rowid_fresh(2) [of _ "map t_id (tasks d)" "tasks_seq d"] by fastforce
  then have "\<And>new. t_id new = ?i \<Longrightarrow> find (\<lambda>t. t_id t = ?i) (tasks d @ [new]) = Some new"
    by (intro find_new_row) simp_all
  then show ?thesis
    using assms by (simp add: createTask_def run_insert_tasks_def Let_def)
qed

text \<open>
  C7, as the code has it. GET /api/tasks answers 200 with the caller's rows of the tasks
  table and no row of another user, each row with its seven columns: as many as the
  table holds for the caller, each as often as the table holds it. The rows are in the
  order of created_at, never increasing. created_at is the second of the creation, and
  the caller's rows of one second are listed in the order of the table, oldest first: the
  most recently created task comes first only when it does not share its second with an
  older one. A task is in the table for its creator from the moment POST /api/tasks
  succeeds: the creation appends one row with the creator's id, the title, description
  and status of the body (null and "pending" by default) and the clock of the request,
  and leaves all other rows as they were.
\<close>

theorem listTasks_own_by_created_at:
  "listTasks user d = ok_response (JObj [(''tasks'', JArr (map task_json (tasks_by_owner (c_id user) d)))])
   \<and> task_json t =
       JObj [(''id'', JNum (t_id t)), (''user_id'', JNum (t_user_id t)), (''title'', JStr (t_title t)),
             (''description'', (case t_description t of None \<Rightarrow> JNull | Some s \<Rightarrow> JStr s)),
             (''status'', (case t_status t of None \<Rightarrow> JNull | Some s \<Rightarrow> JStr s)),
             (''created_at'', JTime (t_created_at t)), (''updated_at'', JTime (t_updated_at t))]
   \<and> mset (tasks_by_owner (c_id user) d) = filter_mset (\<lambda>t. t_user_id t = c_id user) (mset (tasks d))
   \<and> length (tasks_by_owner (c_id user) d) = length (filter (\<lambda>t. t_user_id t = c_id user) (tasks d))
   \<and> (\<forall>t \<in> set (tasks_by_owner (c_id user) d). t_user_id t = c_id user)
   \<and> sorted_wrt (\<lambda>a b. t_created_at b \<le> t_created_at a) (tasks_by_owner (c_id user) d)
   \<and> filter (\<lambda>t. t_created_at t = k) (tasks_by_owner (c_id user) d)
       = filter (\<lambda>t. t_created_at t = k) (filter (\<lambda>t. t_user_id t = c_id user) (tasks d))
   \<and> (truthy (b ''title'') \<and> bind L (b ''title'') = Some s \<longrightarrow>
        (let new = \<lparr>t_id = next_rowid (tasks_seq d) (map t_id (tasks d)), t_user_id = c_id creator,
                     t_title = s, t_description = bind L (js_or (b ''description'') Null),
                     t_status = bind L (js_or (b ''status'') (Str ''pending'')),
                     t_created_at = now, t_updated_at = now\<rparr>
         in createTask L creator now b d =
              (\<lparr>status = 201,
                content = JObj [(''message'', JStr ''Task created successfully''),
                                (''task'', task_json new)]\<rparr>,
               d\<lparr>tasks := tasks d @ [new], tasks_seq := t_id new\<rparr>)
            \<and> mset (tasks_by_owner (c_id user) (snd (createTask L creator now b d)))
                = mset (tasks_by_owner (c_id user) d) + (if c_id creator = c_id user then {#new#} else {#})))"
proof (intro conjI impI)
  show "task_json t =
       JObj [(''id'', JNum (t_id t)), (''user_id'', JNum (t_user_id t)), (''title'', JStr (t_title t)),
             (''description'', (case t_description t of None \<Rightarrow> JNull | Some s \<Rightarrow> JStr s)),
             (''status'', (case t_status t of None \<Rightarrow> JNull | Some s \<Rightarrow> JStr s)),
             (''created_at'', JTime (t_created_at t)), (''updated_at'', JTime (t_updated_at t))]"
    by (simp add: task_json_def split: option.splits)
next
  show "filter (\<lambda>t. t_created_at t = k) (tasks_by_owner (c_id user) d)
       = filter (\<lambda>t. t_created_at t = k) (filter (\<lambda>t. t_user_id t = c_id user) (tasks d))"
    by (rule tasks_by_owner_same_second)
next
  assume "truthy (b ''title'') \<and> bind L (b ''title'') = Some s"
  then have c: "createTask L creator now b d =
           (let new = \<lparr>t_id = next_rowid (tasks_seq d) (map t_id (tasks d)), t_user_id = c_id creator,
                        t_title = s, t_description = bind L (js_or (b ''description'') Null),
                        t_status = bind L (js_or (b ''status'') (Str ''pending'')),
                        t_created_at = now, t_updated_at = now\<rparr>
            in (\<lparr>status = 201,
                 content = JObj [(''message'', JStr ''Task created successfully''),
                                 (''task'', task_json new)]\<rparr>,
                d\<lparr>tasks := tasks d @ [new], tasks_seq := t_id new\<rparr>))"
    by (intro createTask_appends) simp_all
  show "let new = \<lparr>t_id = next_rowid (tasks_seq d) (map t_id (tasks d)), t_user_id = c_id creator,
                     t_title = s, t_description = bind L (js_or (b ''description'') Null),
                     t_status = bind L (js_or (b ''status'') (Str ''pending'')),
                     t_created_at = now, t_updated_at = now\<rparr>
         in createTask L creator now b d =
              (\<lparr>status = 201,
                content = JObj [(''message'', JStr ''Task created successfully''),
                                (''task'', task_json new)]\<rparr>,
               d\<lparr>tasks := tasks d @ [new], tasks_seq := t_id new\<rparr>)
            \<and> mset (tasks_by_owner (c_id user) (snd (createTask L creator now b d)))
                = mset (tasks_by_owner (c_id user) d) + (if c_id creator = c_id user then {#new#} else {#})"
    unfolding c by (simp add: Let_def tasks_by_owner_mset)
qed (simp_all add: listTasks_def tasks_by_owner_mset tasks_by_owner_length tasks_by_owner_sorted
      tasks_by_owner_set)

theorem listTasks_own_by_created_at_witness:
  "map t_id (tasks_by_owner (c_id ann) sample_db) = [3, 1]
   \<and> map t_created_at (tasks_by_owner (c_id ann) sample_db) = [9, 6]
   \<and> length (filter (\<lambda>t. t_user_id t = c_id ann) (tasks sample_db)) = 2
   \<and> createTask toy_libs ann 40 (fields [(''title'', Str ''new'')]) sample_db
       = (\<lparr>status = 201,
           content = JObj [(''message'', JStr ''Task created successfully''),
                           (''task'', JObj [(''id'', JNum 4), (''user_id'', JNum 1), (''title'', JStr ''new''),
                                            (''description'', JNull), (''status'', JStr ''pending''),
                                            (''created_at'', JTime 40), (''updated_at'', JTime 40)])]\<rparr>,
          sample_db\<lparr>tasks := tasks sample_db @
                       [\<lparr>t_id = 4, t_user_id = 1, t_title = ''new'', t_description = None,
                         t_status = Some ''pending'', t_created_at = 40, t_updated_at = 40\<rparr>],
                     tasks_seq := 4\<rparr>)
   \<and> map t_id (tasks_by_owner (c_id ann) (snd (createTask toy_libs ann 40 (fields [(''title'', Str ''new'')]) sample_db)))
       = [4, 3, 1]
   \<and> map t_id (tasks_by_owner (c_id bob) (snd (createTask toy_libs ann 40 (fields [(''title'', Str ''new'')]) sample_db)))
       = [2]"
proof -
  have n: "next_rowid (tasks_seq sample_db) (map t_id (tasks sample_db)) = 4"
    by (simp add: next_rowid_def sample_db_def)
  have c: "createTask toy_libs ann 40 (fields [(''title'', Str ''new'')]) sample_db
       = (\<lparr>status = 201,
           content = JObj [(''message'', JStr ''Task created successfully''),
                           (''task'', JObj [(''id'', JNum 4), (''user_id'', JNum 1), (''title'', JStr ''new''),
                                            (''description'', JNull), (''status'', JStr ''pending''),
                                            (''created_at'', JTime 40), (''updated_at'', JTime 40)])]\<rparr>,
          sample_db\<lparr>tasks := tasks sample_db @
                       [\<lparr>t_id = 4, t_user_id = 1, t_title = ''new'', t_description = None,
                         t_status = Some ''pending'', t_created_at = 40, t_updated_at = 40\<rparr>],
                     tasks_seq := 4\<rparr>)"
    using listTasks_own_by_created_at
      [where L = toy_libs and creator = ann and now = 40 and d = sample_db and s = "''new''"
         and b = "fields [(''title'', Str ''new'')]"]
    by (simp add: n Let_def js_or_def ann_def)
  show ?thesis
    unfolding c
    by (simp add: tasks_by_owner_def sample_db_def ann_def bob_def)
qed

text \<open>
  C7 as stated fails: ann creates "first" and then "second" within second 40 in an empty
  database; the list has "first", the older task, ahead of "second".
\<close>

theorem listTasks_most_recent_first_counterexample:
  "map t_id (tasks (snd (createTask toy_libs ann 40 (fields [(''title'', Str ''second'')])
       (snd (createTask toy_libs ann 40 (fields [(''title'', Str ''first'')]) empty_db))))) = [1, 2]
   \<and> map t_title (tasks_by_owner (c_id ann)
         (snd (createTask toy_libs ann 40 (fields [(''title'', Str ''second'')])
           (snd (createTask toy_libs ann 40 (fields [(''title'', Str ''first'')]) empty_db)))))
       = [''first'', ''second'']
   \<and> map t_id (tasks_by_owner (c_id ann)
         (snd (createTask toy_libs ann 40 (fields [(''title'', Str ''second'')])
           (snd (createTask toy_libs ann 40 (fields [(''title'', Str ''first'')]) empty_db)))))
       = [1, 2]
   \<and> map t_created_at (tasks_by_owner (c_id ann)
         (snd (createTask toy_libs ann 40 (fields [(''title'', Str ''second'')])
           (snd (createTask toy_libs ann 40 (fields [(''title'', Str ''first'')]) empty_db)))))
       = [40, 40]"
  by (simp add: createTask_def run_insert_tasks_def next_rowid_def tasks_by_owner_def empty_db_def
      ann_def js_or_def Let_def)

section \<open>Partial updates\<close>

lemma set_task_column_frame:
  "t_id (set_task_column now t a) = t_id t \<and> t_user_id (set_task_column now t a) = t_user_id t
   \<and> t_created_at (set_task_column now t a) = t_created_at t
   \<and> (fst a \<noteq> Title \<longrightarrow> t_title (set_task_column now t a) = t_title t)
   \<and> (fst a \<noteq> Description \<longrightarrow> t_description (set_task_column now t a) = t_description t)
   \<and> (fst a \<noteq> Status \<longrightarrow> t_status (set_task_column now t a) = t_status t)"
  by (cases "(now, t, a)" rule: set_task_column.cases) (auto split: option.splits)

lemma set_task_columns_frame:
  "t_id (foldl (set_task_column now) t ups) = t_id t
   \<and> t_user_id (foldl (set_task_column now) t ups) = t_user_id t
   \<and> t_created_at (foldl (set_task_column now) t ups) = t_created_at t
   \<and> (Title \<notin> fst ` set ups \<longrightarrow> t_title (foldl (set_task_column now) t ups) = t_title t)
   \<and> (Description \<notin> fst ` set ups \<longrightarrow> t_description (foldl (set_task_column now) t ups) = t_description t)
   \<and> (Status \<notin> fst ` set ups \<longrightarrow> t_status (foldl (set_task_column now) t ups) = t_status t)"
proof (induction ups arbitrary: t)
  case Nil
  show ?case by simp
next
  case (Cons a ups)
  show ?case
    using Cons.IH [of "set_task_column now t a"] set_task_column_frame [of now t a] by auto
qed

lemma set_user_column_frame:
  "u_id (set_user_column u a) = u_id u \<and> u_password (set_user_column u a) = u_password u
   \<and> u_created_at (set_user_column u a) = u_created_at u
   \<and> (fst a \<noteq> Name \<longrightarrow> u_name (set_user_column u a) = u_name u)
   \<and> (fst a \<noteq> Email \<longrightarrow> u_email (set_user_column u a) = u_email u)"
  by (cases "(u, a)" rule: set_user_column.cases) auto

lemma set_user_columns_frame:
  "u_id (foldl set_user_column u sets) = u_id u
   \<and> u_password (foldl set_user_column u sets) = u_password u
   \<and> u_created_at (foldl set_user_column u sets) = u_created_at u
   \<and> (Name \<notin> fst ` set sets \<longrightarrow> u_name (foldl set_user_column u sets) = u_name u)
   \<and> (Email \<notin> fst ` set sets \<longrightarrow> u_email (foldl set_user_column u sets) = u_email u)"
proof (induction sets arbitrary: u)
  case Nil
  show ?case by simp
next
  case (Cons a sets)
  show ?case
    using Cons.IH [of "set_user_column u a"] set_user_column_frame [of u a] by auto
qed

lemma non_null_columns: "non_null ups = Some sets \<Longrightarrow> map fst sets = map fst ups"
proof (induction ups arbitrary: sets)
  case Nil
  then show ?case by simp
next
  case (Cons a ups)
  obtain c v where a: "a = (c, v)" by (cases a)
  with Cons show ?case by (cases v) auto
qed

lemma list_all2_map_self: "(\<And>x. x \<in> set xs \<Longrightarrow> P x (f x)) \<Longrightarrow> list_all2 P xs (map f xs)"
  by (induction xs) auto

text \<open>The columns a PUT /api/tasks/:id writes, and those a PUT /api/profile writes.\<close>

lemma run_update_tasks_frame:
  assumes "run_update_tasks ups now i uid d = Inr (n, d')"
  shows "users d' = users d \<and> users_seq d' = users_seq d \<and> tasks_seq d' = tasks_seq d
       \<and> list_all2 (\<lambda>t t'. t_id t' = t_id t \<and> t_user_id t' = t_user_id t
              \<and> t_created_at t' = t_created_at t
              \<and> (Title \<notin> fst ` set ups \<longrightarrow> t_title t' = t_title t)
              \<and> (Description \<notin> fst ` set ups \<longrightarrow> t_description t' = t_description t)
              \<and> (Status \<notin> fst ` set ups \<longrightarrow> t_status t' = t_status t)
              \<and> t' = (if Some (t_id t) = i \<and> t_user_id t = uid
                       then foldl (set_task_column now) t ups else t)) (tasks d) (tasks d')"
proof -
  let ?hit = "\<lambda>t. Some (t_id t) = i \<and> t_user_id t = uid"
  from assms have d': "d' = d\<lparr>tasks := map (\<lambda>t. if ?hit t then foldl (set_task_column now) t ups else t) (tasks d)\<rparr>"
    by (auto simp: run_update_tasks_def Let_def split: if_splits)
  show ?thesis
    unfolding d' using set_task_columns_frame [of now _ ups]
    by (auto intro!: list_all2_map_self)
qed

lemma run_update_users_frame:
  assumes "run_update_users ups i d = Inr d'"
  shows "tasks d' = tasks d \<and> users_seq d' = users_seq d \<and> tasks_seq d' = tasks_seq d
       \<and> list_all2 (\<lambda>u u'. u_id u' = u_id u \<and> u_password u' = u_password u
              \<and> u_created_at u' = u_created_at u
              \<and> (Name \<notin> fst ` set ups \<longrightarrow> u_name u' = u_name u)
              \<and> (Email \<notin> fst ` set ups \<longrightarrow> u_email u' = u_email u)
              \<and> (u_id u \<noteq> i \<longrightarrow> u' = u)) (users d) (users d')"
proof (cases "list_ex (\<lambda>u. u_id u = i) (users d)")
  case False
  with assms have "d' = d" by (simp add: run_update_users_def)
  then show ?thesis by (simp add: list_all2_same)
next
  case True
  with assms obtain sets where sets: "non_null ups = Some sets"
    and d': "d' = d\<lparr>users := map (\<lambda>u. if u_id u = i then foldl set_user_column u sets else u) (users d)\<rparr>"
    by (auto simp: run_update_users_def Let_def split: option.splits if_splits)
  have "fst ` set sets = fst ` set ups"
    using non_null_columns [OF sets] by (metis set_map)
  then show ?thesis
    unfolding d' using set_user_columns_frame [of _ sets]
    by (auto intro!: list_all2_map_self)
qed

text \<open>
  C9. A PUT /api/profile or PUT /api/tasks/:id that succeeds leaves every row of both
  tables in place, and in every row each column whose field the body does not supply
  keeps its value: for tasks title, description and status when not supplied, and always
  id, user_id and created_at (updated_at is the one column written regardless); for
  users name and email when not supplied, and always id, password and created_at. A
  successful task update sets updated_at of the rows it matches (the caller's rows with
  the id of the path parameter) to the clock of the request and leaves every other row
  exactly as it was; a profile update leaves every row but the caller's as it was. The
  other table and both AUTOINCREMENT counters are untouched.
\<close>

theorem updates_keep_unsupplied_fields:
  "(updateTask L user pid now b d = (r, d') \<and> status r = 200 \<longrightarrow>
      users d' = users d \<and> users_seq d' = users_seq d \<and> tasks_seq d' = tasks_seq d
      \<and> list_all2 (\<lambda>t t'. t_id t' = t_id t \<and> t_user_id t' = t_user_id t
              \<and> t_created_at t' = t_created_at t
              \<and> (b ''title'' = Undefined \<longrightarrow> t_title t' = t_title t)
              \<and> (b ''description'' = Undefined \<longrightarrow> t_description t' = t_description t)
              \<and> (b ''status'' = Undefined \<longrightarrow> t_status t' = t_status t)
              \<and> (if Some (t_id t) = sql_integer L pid \<and> t_user_id t = c_id user
                  then t_updated_at t' = now else t' = t)) (tasks d) (tasks d'))
   \<and> (updateProfile L user b d = (r, d') \<and> status r = 200 \<longrightarrow>
      tasks d' = tasks d \<and> users_seq d' = users_seq d \<and> tasks_seq d' = tasks_seq d
      \<and> list_all2 (\<lambda>u u'. u_id u' = u_id u \<and> u_password u' = u_password u
              \<and> u_created_at u' = u_created_at u
              \<and> (b ''name'' = Undefined \<longrightarrow> u_name u' = u_name u)
              \<and> (b ''email'' = Undefined \<longrightarrow> u_email u' = u_email u)
              \<and> (u_id u \<noteq> c_id user \<longrightarrow> u' = u)) (users d) (users d'))"
proof (intro conjI impI)
  assume a: "updateTask L user pid now b d = (r, d') \<and> status r = 200"
  define ups where "ups = (if truthy (b ''title'') then [(Title, bind L (b ''title''))] else [])
                    @ (if b ''description'' \<noteq> Undefined then [(Description, bind L (b ''description''))] else [])
                    @ (if truthy (b ''status'') then [(Status, bind L (b ''status''))] else [])
                    @ [(Updated_at, None)]"
  from a obtain n where run: "run_update_tasks ups now (sql_integer L pid) (c_id user) d = Inr (n, d')"
    by (auto simp: updateTask_def Let_def ups_def error_response_def
          split: if_splits sum.splits prod.splits)
  have cols: "(b ''title'' = Undefined \<longrightarrow> Title \<notin> fst ` set ups)
            \<and> (b ''description'' = Undefined \<longrightarrow> Description \<notin> fst ` set ups)
            \<and> (b ''status'' = Undefined \<longrightarrow> Status \<notin> fst ` set ups)"
    by (auto simp: ups_def)
  have touched: "\<And>t. t_updated_at (foldl (set_task_column now) t ups) = now"
    by (simp add: ups_def)
  note f = run_update_tasks_frame [OF run]
  from f show "users d' = users d" "users_seq d' = users_seq d" "tasks_seq d' = tasks_seq d"
    by simp_all
  from f have "list_all2 (\<lambda>t t'. t_id t' = t_id t \<and> t_user_id t' = t_user_id t
              \<and> t_created_at t' = t_created_at t
              \<and> (Title \<notin> fst ` set ups \<longrightarrow> t_title t' = t_title t)
              \<and> (Description \<notin> fst ` set ups \<longrightarrow> t_description t' = t_description t)
              \<and> (Status \<notin> fst ` set ups \<longrightarrow> t_status t' = t_status t)
              \<and> t' = (if Some (t_id t) = sql_integer L pid \<and> t_user_id t = c_id user
                       then foldl (set_task_column now) t ups else t)) (tasks d) (tasks d')"
    by simp
  then show "list_all2 (\<lambda>t t'. t_id t' = t_id t \<and> t_user_id t' = t_user_id t
              \<and> t_created_at t' = t_created_at t
              \<and> (b ''title'' = Undefined \<longrightarrow> t_title t' = t_title t)
              \<and> (b ''description'' = Undefined \<longrightarrow> t_description t' = t_description t)
              \<and> (b ''status'' = Undefined \<longrightarrow> t_status t' = t_status t)
              \<and> (if Some (t_id t) = sql_integer L pid \<and> t_user_id t = c_id user
                  then t_updated_at t' = now else t' = t)) (tasks d) (tasks d')"
    by (rule list_all2_mono) (use cols touched in auto)
next
  assume a: "updateProfile L user b d = (r, d') \<and> status r = 200"
  define ups where "ups = (if truthy (b ''name'') then [(Name, bind L (b ''name''))] else [])
                    @ (if truthy (b ''email'') then [(Email, bind L (b ''email''))] else [])"
  from a have run: "run_update_users ups (c_id user) d = Inr d'"
    by (auto simp: updateProfile_def Let_def ups_def error_response_def
          split: if_splits sum.splits)
  have cols: "(b ''name'' = Undefined \<longrightarrow> Name \<notin> fst ` set ups)
            \<and> (b ''email'' = Undefined \<longrightarrow> Email \<notin> fst ` set ups)"
    by (auto simp: ups_def)
  note f = run_update_users_frame [OF run]
  from f show "tasks d' = tasks d" "users_seq d' = users_seq d" "tasks_seq d' = tasks_seq d"
    by simp_all
  from f have "list_all2 (\<lambda>u u'. u_id u' = u_id u \<and> u_password u' = u_password u
              \<and> u_created_at u' = u_created_at u
              \<and> (Name \<notin> fst ` set ups \<longrightarrow> u_name u' = u_name u)
              \<and> (Email \<notin> fst ` set ups \<longrightarrow> u_email u' = u_email u)
              \<and> (u_id u \<noteq> c_id user \<longrightarrow> u' = u)) (users d) (users d')"
    by simp
  then show "list_all2 (\<lambda>u u'. u_id u' = u_id u \<and> u_password u' = u_password u
              \<and> u_created_at u' = u_created_at u
              \<and> (b ''name'' = Undefined \<longrightarrow> u_name u' = u_name u)
              \<and> (b ''email'' = Undefined \<longrightarrow> u_email u' = u_email u)
              \<and> (u_id u \<noteq> c_id user \<longrightarrow> u' = u)) (users d) (users d')"
    by (rule list_all2_mono) (use cols in blast)
qed

theorem updates_keep_unsupplied_fields_witness:
  "status (fst (updateTask toy_libs ann ''1'' 20 (fields [(''status'', Str ''done'')]) sample_db)) = 200
   \<and> map t_title (tasks (snd (updateTask toy_libs ann ''1'' 20 (fields [(''status'', Str ''done'')]) sample_db)))
       = map t_title (tasks sample_db)
   \<and> map t_description (tasks (snd (updateTask toy_libs ann ''1'' 20 (fields [(''status'', Str ''done'')]) sample_db)))
       = map t_description (tasks sample_db)
   \<and> map t_status (tasks (snd (updateTask toy_libs ann ''1'' 20 (fields [(''status'', Str ''done'')]) sample_db)))
       = [Some ''done'', Some ''pending'', Some ''done'']
   \<and> map t_updated_at (tasks (snd (updateTask toy_libs ann ''1'' 20 (fields [(''status'', Str ''done'')]) sample_db)))
       = [20, 8, 10]
   \<and> status (fst (updateProfile toy_libs bob (fields [(''name'', Str ''Bobby'')]) sample_db)) = 200
   \<and> map u_email (users (snd (updateProfile toy_libs bob (fields [(''name'', Str ''Bobby'')]) sample_db)))
       = map u_email (users sample_db)
   \<and> map u_name (users (snd (updateProfile toy_libs bob (fields [(''name'', Str ''Bobby'')]) sample_db)))
       = [''A'', ''Bobby'']"
proof -
  have i1: "sql_integer toy_libs ''1'' = Some 1"
    by (simp add: toy_libs_def toy_integer_def digit_def)
  show ?thesis
    using updates_keep_unsupplied_fields
      [where L = toy_libs and user = ann and pid = "''1''" and now = 20
         and b = "fields [(''status'', Str ''done'')]" and d = sample_db
         and r = "fst (updateTask toy_libs ann ''1'' 20 (fields [(''status'', Str ''done'')]) sample_db)"
         and d' = "snd (updateTask toy_libs ann ''1'' 20 (fields [(''status'', Str ''done'')]) sample_db)"]
      updates_keep_unsupplied_fields
      [where L = toy_libs and user = bob and b = "fields [(''name'', Str ''Bobby'')]" and d = sample_db
         and r = "fst (updateProfile toy_libs bob (fields [(''name'', Str ''Bobby'')]) sample_db)"
         and d' = "snd (updateProfile toy_libs bob (fields [(''name'', Str ''Bobby'')]) sample_db)"]
    by (simp add: i1 updateTask_def updateProfile_def run_update_tasks_def run_update_users_def
        sample_db_def ann_def bob_def ok_response_def Let_def)
qed

section \<open>The password hash stays in the database\<close>

lemma with_passwords_simps [simp]:
  "tasks (with_passwords g d) = tasks d"
  "users_seq (with_passwords g d) = users_seq d"
  "tasks_seq (with_passwords g d) = tasks_seq d"
  "map u_id (users (with_passwords g d)) = map u_id (users d)"
  "map u_email (users (with_passwords g d)) = map u_email (users d)"
  by (simp_all add: with_passwords_def)

lemma find_rehash:
  assumes "\<And>u. P (u\<lparr>u_password := g (u_id u)\<rparr>) = P u"
  shows "find P (map (\<lambda>u. u\<lparr>u_password := g (u_id u)\<rparr>) us)
           = map_option (\<lambda>u. u\<lparr>u_password := g (u_id u)\<rparr>) (find P us)"
  using assms by (induction us) auto

lemma public_user_rehash [simp]: "public_user (u\<lparr>u_password := h\<rparr>) = public_user u"
  by (simp add: public_user_def)

lemma users_public_by_id_rehash [simp]:
  "users_public_by_id i (with_passwords g d) = users_public_by_id i d"
  by (simp add: users_public_by_id_def with_passwords_def find_rehash option.map_comp comp_def)

lemma users_by_email_rehash:
  "users_by_email e (with_passwords g d)
     = map_option (\<lambda>u. u\<lparr>u_password := g (u_id u)\<rparr>) (users_by_email e d)"
  by (cases e) (simp_all add: with_passwords_def find_rehash)

lemma getProfile_rehash: "getProfile user (with_passwords g d) = getProfile user d"
  by (simp add: getProfile_def)

lemma getProfile_fields:
  "getProfile user d =
     (case find (\<lambda>u. u_id u = c_id user) (users d) of
        None \<Rightarrow> error_response 404 ''User not found''
      | Some u \<Rightarrow>
          ok_response (JObj [(''user'', JObj [(''id'', JNum (u_id u)), (''email'', JStr (u_email u)),
                                             (''name'', JStr (u_name u)),
                                             (''created_at'', JTime (u_created_at u))])]))"
  by (simp add: getProfile_def users_public_by_id_def public_user_def split: option.splits)

lemma truthy_js: "truthy f \<Longrightarrow> \<exists>v. js f = Some v"
  by (cases f) simp_all

lemma hash_field_string:
  "hash_field L f r salt = Some h \<Longrightarrow> \<exists>p. f = Str p \<and> bcrypt_hash L p r salt = Some h"
  by (cases f) simp_all

lemma signup_created:
  assumes "status (fst (signup L now salt b d)) = 201"
  shows "\<exists>e n p h email name.
           truthy (b ''email'') \<and> truthy (b ''name'')
           \<and> js (b ''email'') = Some email \<and> js (b ''name'') = Some name
           \<and> bind L (b ''email'') = Some e \<and> bind L (b ''name'') = Some n
           \<and> b ''password'' = Str p \<and> p \<noteq> [] \<and> e \<notin> set (map u_email (users d))
           \<and> bcrypt_hash L p 10 salt = Some h
           \<and> signup L now salt b d =
               (let i = next_rowid (users_seq d) (map u_id (users d)) in
                (\<lparr>status = 201,
                  content = JObj [(''message'', JStr ''User created successfully''),
                                  (''token'', JStr (jwt_sign L [(''id'', JNum i), (''email'', email)]
                                                     JWT_SECRET ''24h'' now)),
                                  (''user'', JObj [(''id'', JNum i), (''email'', email),
                                                   (''name'', name)])]\<rparr>,
                 d\<lparr>users := users d @ [\<lparr>u_id = i, u_email = e, u_password = h, u_name = n,
                                          u_created_at = now\<rparr>],
                   users_seq := i\<rparr>))"
proof -
  from assms have t: "truthy (b ''email'')" "truthy (b ''password'')" "truthy (b ''name'')"
    by (auto simp: signup_def Let_def error_response_def split: if_splits)
  from assms t obtain h where "hash_field L (b ''password'') 10 salt = Some h"
    by (cases "hash_field L (b ''password'') 10 salt")
       (auto simp: signup_def Let_def error_response_def)
  then obtain p where p: "b ''password'' = Str p" "bcrypt_hash L p 10 salt = Some h"
    using hash_field_string by blast
  with t have pne: "p \<noteq> []" by simp
  from t obtain email name where v: "js (b ''email'') = Some email" "js (b ''name'') = Some name"
    using truthy_js by blast
  from assms t p obtain e n where en: "bind L (b ''email'') = Some e" "bind L (b ''name'') = Some n"
    by (cases "bind L (b ''email'')"; cases "bind L (b ''name'')")
       (auto simp: signup_def Let_def error_response_def run_insert_users_def)
  from assms t p en have new: "e \<notin> set (map u_email (users d))"
    by (auto simp: signup_def Let_def error_response_def run_insert_users_def split: if_splits)
  have "signup L now salt b d =
               (let i = next_rowid (users_seq d) (map u_id (users d)) in
                (\<lparr>status = 201,
                  content = JObj [(''message'', JStr ''User created successfully''),
                                  (''token'', JStr (jwt_sign L [(''id'', JNum i), (''email'', email)]
                                                     JWT_SECRET ''24h'' now)),
                                  (''user'', JObj [(''id'', JNum i), (''email'', email),
                                                   (''name'', name)])]\<rparr>,
                 d\<lparr>users := users d @ [\<lparr>u_id = i, u_email = e, u_password = h, u_name = n,
                                          u_created_at = now\<rparr>],
                   users_seq := i\<rparr>))"
    using t p v en new
    by (simp add: signup_def Let_def run_insert_users_def token_payload_def)
  with t p pne v en new show ?thesis by blast
qed

lemma login_succeeded:
  assumes "status (login L now b d) = 200"
  shows "\<exists>e p u.
           truthy (b ''email'') \<and> bind L (b ''email'') = Some e \<and> b ''password'' = Str p \<and> p \<noteq> []
           \<and> find (\<lambda>u. u_email u = e) (users d) = Some u
           \<and> bcrypt_compare L p (u_password u) = Some True
           \<and> login L now b d =
               ok_response
                 (JObj [(''message'', JStr ''Login successful''),
                        (''token'', JStr (jwt_sign L [(''id'', JNum (u_id u)), (''email'', JStr (u_email u))]
                                           JWT_SECRET ''24h'' now)),
                        (''user'', JObj [(''id'', JNum (u_id u)), (''email'', JStr (u_email u)),
                                         (''name'', JStr (u_name u))])])"
proof -
  from assms have t: "truthy (b ''email'')" "truthy (b ''password'')"
    by (auto simp: login_def Let_def error_response_def split: if_splits)
  from assms t obtain u where u: "users_by_email (bind L (b ''email'')) d = Some u"
    by (cases "users_by_email (bind L (b ''email'')) d") (auto simp: login_def Let_def error_response_def)
  then obtain e where e: "bind L (b ''email'') = Some e" "find (\<lambda>u. u_email u = e) (users d) = Some u"
    by (cases "bind L (b ''email'')") auto
  from assms t u have "compare_field L (b ''password'') (u_password u) = Some True"
    by (cases "compare_field L (b ''password'') (u_password u)")
       (auto simp: login_def Let_def error_response_def split: if_splits)
  then obtain p where p: "b ''password'' = Str p" "bcrypt_compare L p (u_password u) = Some True"
    using compare_field_string by blast
  with t have pne: "p \<noteq> []" by simp
  have "login L now b d =
               ok_response
                 (JObj [(''message'', JStr ''Login successful''),
                        (''token'', JStr (jwt_sign L [(''id'', JNum (u_id u)), (''email'', JStr (u_email u))]
                                           JWT_SECRET ''24h'' now)),
                        (''user'', JObj [(''id'', JNum (u_id u)), (''email'', JStr (u_email u)),
                                         (''name'', JStr (u_name u))])])"
    using t u p by (simp add: login_def Let_def token_payload_def)
  with t e p pne show ?thesis by blast
qed

lemma login_rehash:
  assumes "\<forall>u \<in> set (users d). compare_field L (b ''password'') (g (u_id u))
             = compare_field L (b ''password'') (u_password u)"
  shows "login L now b (with_passwords g d) = login L now b d"
proof (cases "users_by_email (bind L (b ''email'')) d")
  case None
  then show ?thesis by (simp add: login_def users_by_email_rehash Let_def)
next
  case (Some u)
  then have "u \<in> set (users d)"
    by (cases "bind L (b ''email'')") (auto simp: find_Some_iff)
  with assms have "compare_field L (b ''password'') (g (u_id u))
             = compare_field L (b ''password'') (u_password u)" by blast
  with Some show ?thesis
    by (simp add: login_def users_by_email_rehash Let_def split: option.splits)
qed

lemma signup_rehash:
  "fst (signup L now salt b (with_passwords g d)) = fst (signup L now salt b d)"
  by (simp add: signup_def Let_def run_insert_users_def split: option.splits)

lemma set_user_column_rehash:
  "foldl set_user_column (u\<lparr>u_password := h\<rparr>) sets = (foldl set_user_column u sets)\<lparr>u_password := h\<rparr>"
proof (induction sets arbitrary: u)
  case Nil
  show ?case by simp
next
  case (Cons a sets)
  have "set_user_column (u\<lparr>u_password := h\<rparr>) a = (set_user_column u a)\<lparr>u_password := h\<rparr>"
    by (cases "(u, a)" rule: set_user_column.cases) simp_all
  with Cons.IH show ?case by simp
qed

lemma list_ex_rehash:
  assumes "\<And>u. P (u\<lparr>u_password := g (u_id u)\<rparr>) = P u"
  shows "list_ex P (map (\<lambda>u. u\<lparr>u_password := g (u_id u)\<rparr>) us) = list_ex P us"
  using assms by (induction us) auto

lemma run_update_users_rehash:
  "run_update_users ups i (with_passwords g d)
     = (case run_update_users ups i d of Inl e \<Rightarrow> Inl e | Inr d' \<Rightarrow> Inr (with_passwords g d'))"
proof -
  have id: "\<And>u sets. u_id (foldl set_user_column u sets) = u_id u"
    using set_user_columns_frame by blast
  show ?thesis
    by (auto simp: run_update_users_def with_passwords_def Let_def list_ex_rehash
        set_user_column_rehash id comp_def list_ex_iff split: option.splits)
qed

lemma updateProfile_rehash:
  "fst (updateProfile L user b (with_passwords g d)) = fst (updateProfile L user b d)"
  by (simp add: updateProfile_def Let_def run_update_users_rehash split: sum.splits)

lemma tasks_by_id_rehash [simp]: "tasks_by_id i (with_passwords g d) = tasks_by_id i d"
  by (cases i) simp_all

lemma tasks_by_id_owner_rehash [simp]:
  "tasks_by_id_owner i uid (with_passwords g d) = tasks_by_id_owner i uid d"
  by (cases i) simp_all

lemma run_insert_tasks_rehash:
  "run_insert_tasks uid ti de st now (with_passwords g d)
     = (case run_insert_tasks uid ti de st now d of
          Inl e \<Rightarrow> Inl e | Inr (i, d') \<Rightarrow> Inr (i, with_passwords g d'))"
  by (simp add: run_insert_tasks_def with_passwords_def Let_def split: option.splits)

lemma run_update_tasks_rehash:
  "run_update_tasks ups now i uid (with_passwords g d)
     = (case run_update_tasks ups now i uid d of
          Inl e \<Rightarrow> Inl e | Inr (n, d') \<Rightarrow> Inr (n, with_passwords g d'))"
  by (simp add: run_update_tasks_def with_passwords_def Let_def)

lemma run_delete_tasks_rehash:
  "run_delete_tasks i uid (with_passwords g d)
     = (case run_delete_tasks i uid d of (n, d') \<Rightarrow> (n, with_passwords g d'))"
  by (simp add: run_delete_tasks_def with_passwords_def Let_def)

lemma createTask_rehash:
  "fst (createTask L user now b (with_passwords g d)) = fst (createTask L user now b d)"
proof (cases "run_insert_tasks (c_id user) (bind L (b ''title'')) (bind L (js_or (b ''description'') Null))
               (bind L (js_or (b ''status'') (Str ''pending''))) now d")
  case (Inl e)
  then show ?thesis by (simp add: createTask_def run_insert_tasks_rehash Let_def)
next
  case (Inr p)
  then show ?thesis by (cases p) (simp add: createTask_def run_insert_tasks_rehash Let_def)
qed

lemma updateTask_rehash:
  "fst (updateTask L user pid now b (with_passwords g d)) = fst (updateTask L user pid now b d)"
proof -
  define ups where "ups = (if truthy (b ''title'') then [(Title, bind L (b ''title''))] else [])
                    @ (if b ''description'' \<noteq> Undefined then [(Description, bind L (b ''description''))] else [])
                    @ (if truthy (b ''status'') then [(Status, bind L (b ''status''))] else [])
                    @ [(Updated_at, None)]"
  have u: "\<And>d. updateTask L user pid now b d =
     (if \<not> truthy (b ''title'') \<and> \<not> truthy (b ''description'') \<and> \<not> truthy (b ''status'')
      then (error_response 400 ''At least one field is required'', d)
      else case run_update_tasks ups now (sql_integer L pid) (c_id user) d of
             Inl err \<Rightarrow> (error_response 500 ''Database error'', d)
           | Inr (changes, d') \<Rightarrow>
               if changes = 0 then (error_response 404 ''Task not found'', d')
               else
                 (ok_response (JObj ([(''message'', JStr ''Task updated successfully'')]
                                      @ property ''task'' (map_option task_json
                                                         (tasks_by_id (sql_integer L pid) d')))),
                  d'))"
    unfolding updateTask_def ups_def Let_def by (rule refl)
  show ?thesis
  proof (cases "run_update_tasks ups now (sql_integer L pid) (c_id user) d")
    case (Inl e)
    then show ?thesis by (simp add: u run_update_tasks_rehash)
  next
    case (Inr p)
    then show ?thesis by (cases p) (simp add: u run_update_tasks_rehash)
  qed
qed

lemma task_routes_rehash:
  "listTasks user (with_passwords g d) = listTasks user d"
  "getTask L user pid (with_passwords g d) = getTask L user pid d"
  "fst (deleteTask L user pid (with_passwords g d)) = fst (deleteTask L user pid d)"
  by (simp_all add: listTasks_def tasks_by_owner_def getTask_def deleteTask_def
      run_delete_tasks_rehash split: prod.splits)

text \<open>
  C8. GET /api/profile answers with exactly id, email, name and created_at of the
  caller's row. The user object of a successful signup holds the new id and the email and
  name of the body, that of a successful login id, email and name of the stored row, and
  either token is signed over id and email only. No response of any route depends on
  what the password column holds: overwriting the column leaves every response as it
  was, for login as long as \<^verbatim>\<open>bcrypt.compare\<close> answers alike.
\<close>

theorem password_hash_not_in_responses:
  "getProfile user d =
     (case find (\<lambda>u. u_id u = c_id user) (users d) of
        None \<Rightarrow> error_response 404 ''User not found''
      | Some u \<Rightarrow>
          ok_response (JObj [(''user'', JObj [(''id'', JNum (u_id u)), (''email'', JStr (u_email u)),
                                             (''name'', JStr (u_name u)),
                                             (''created_at'', JTime (u_created_at u))])]))
   \<and> (status (fst (signup L now salt b d)) = 201 \<longrightarrow>
        (\<exists>i email name. js (b ''email'') = Some email \<and> js (b ''name'') = Some name
           \<and> i = next_rowid (users_seq d) (map u_id (users d))
           \<and> fst (signup L now salt b d) =
               \<lparr>status = 201,
                content = JObj [(''message'', JStr ''User created successfully''),
                                (''token'', JStr (jwt_sign L [(''id'', JNum i), (''email'', email)]
                                                   JWT_SECRET ''24h'' now)),
                                (''user'', JObj [(''id'', JNum i), (''email'', email),
                                                 (''name'', name)])]\<rparr>))
   \<and> (status (login L now b d) = 200 \<longrightarrow>
        (\<exists>u. u \<in> set (users d) \<and> bind L (b ''email'') = Some (u_email u)
           \<and> login L now b d =
               ok_response
                 (JObj [(''message'', JStr ''Login successful''),
                        (''token'', JStr (jwt_sign L [(''id'', JNum (u_id u)), (''email'', JStr (u_email u))]
                                           JWT_SECRET ''24h'' now)),
                        (''user'', JObj [(''id'', JNum (u_id u)), (''email'', JStr (u_email u)),
                                         (''name'', JStr (u_name u))])])))
   \<and> getProfile user (with_passwords g d) = getProfile user d
   \<and> fst (updateProfile L user b (with_passwords g d)) = fst (updateProfile L user b d)
   \<and> fst (signup L now salt b (with_passwords g d)) = fst (signup L now salt b d)
   \<and> ((\<forall>u \<in> set (users d). compare_field L (b ''password'') (g (u_id u))
                               = compare_field L (b ''password'') (u_password u)) \<longrightarrow>
        login L now b (with_passwords g d) = login L now b d)
   \<and> listTasks user (with_passwords g d) = listTasks user d
   \<and> getTask L user pid (with_passwords g d) = getTask L user pid d
   \<and> fst (createTask L user now b (with_passwords g d)) = fst (createTask L user now b d)
   \<and> fst (updateTask L user pid now b (with_passwords g d)) = fst (updateTask L user pid now b d)
   \<and> fst (deleteTask L user pid (with_passwords g d)) = fst (deleteTask L user pid d)"
proof (intro conjI impI)
  show "getProfile user d =
     (case find (\<lambda>u. u_id u = c_id user) (users d) of
        None \<Rightarrow> error_response 404 ''User not found''
      | Some u \<Rightarrow>
          ok_response (JObj [(''user'', JObj [(''id'', JNum (u_id u)), (''email'', JStr (u_email u)),
                                             (''name'', JStr (u_name u)),
                                             (''created_at'', JTime (u_created_at u))])]))"
    by (rule getProfile_fields)
next
  assume "status (fst (signup L now salt b d)) = 201"
  from signup_created [OF this]
  show "\<exists>i email name. js (b ''email'') = Some email \<and> js (b ''name'') = Some name
           \<and> i = next_rowid (users_seq d) (map u_id (users d))
           \<and> fst (signup L now salt b d) =
               \<lparr>status = 201,
                content = JObj [(''message'', JStr ''User created successfully''),
                                (''token'', JStr (jwt_sign L [(''id'', JNum i), (''email'', email)]
                                                   JWT_SECRET ''24h'' now)),
                                (''user'', JObj [(''id'', JNum i), (''email'', email),
                                                 (''name'', name)])]\<rparr>"
    by (auto simp: Let_def)
next
  assume "status (login L now b d) = 200"
  from login_succeeded [OF this] obtain e p u where
    u: "bind L (b ''email'') = Some e" "find (\<lambda>u. u_email u = e) (users d) = Some u"
       "login L now b d =
               ok_response
                 (JObj [(''message'', JStr ''Login successful''),
                        (''token'', JStr (jwt_sign L [(''id'', JNum (u_id u)), (''email'', JStr (u_email u))]
                                           JWT_SECRET ''24h'' now)),
                        (''user'', JObj [(''id'', JNum (u_id u)), (''email'', JStr (u_email u)),
                                         (''name'', JStr (u_name u))])])"
    by blast
  from u(2) have "u \<in> set (users d)" "u_email u = e"
    by (auto simp: find_Some_iff)
  with u show "\<exists>u. u \<in> set (users d) \<and> bind L (b ''email'') = Some (u_email u)
           \<and> login L now b d =
               ok_response
                 (JObj [(''message'', JStr ''Login successful''),
                        (''token'', JStr (jwt_sign L [(''id'', JNum (u_id u)), (''email'', JStr (u_email u))]
                                           JWT_SECRET ''24h'' now)),
                        (''user'', JObj [(''id'', JNum (u_id u)), (''email'', JStr (u_email u)),
                                         (''name'', JStr (u_name u))])])"
    by blast
next
  assume "\<forall>u \<in> set (users d). compare_field L (b ''password'') (g (u_id u))
                               = compare_field L (b ''password'') (u_password u)"
  then show "login L now b (with_passwords g d) = login L now b d"
    by (rule login_rehash)
qed (simp_all only: getProfile_rehash updateProfile_rehash signup_rehash task_routes_rehash
      createTask_rehash updateTask_rehash)

theorem password_hash_not_in_responses_witness:
  "getProfile ann sample_db =
     ok_response (JObj [(''user'', JObj [(''id'', JNum 1), (''email'', JStr ''a@x.com''),
                                        (''name'', JStr ''A''), (''created_at'', JTime 5)])])
   \<and> fst (signup toy_libs 30 ''s3''
            (fields [(''email'', Str ''c@x.com''), (''password'', Str ''p3''), (''name'', Str ''C'')]) sample_db)
       = \<lparr>status = 201,
          content = JObj [(''message'', JStr ''User created successfully''),
                          (''token'', JStr ''your-secret-key-change-in-production.xxx.c@x.com''),
                          (''user'', JObj [(''id'', JNum 3), (''email'', JStr ''c@x.com''),
                                           (''name'', JStr ''C'')])]\<rparr>
   \<and> login toy_libs 30 (fields [(''email'', Str ''a@x.com''), (''password'', Str ''p1'')]) sample_db
       = ok_response
           (JObj [(''message'', JStr ''Login successful''),
                  (''token'', JStr ''your-secret-key-change-in-production.x.a@x.com''),
                  (''user'', JObj [(''id'', JNum 1), (''email'', JStr ''a@x.com''), (''name'', JStr ''A'')])])
   \<and> login toy_libs 30 (fields [(''email'', Str ''a@x.com''), (''password'', Str ''p1'')])
         (with_passwords (\<lambda>i. if i = 1 then ''other$p1'' else ''none'') sample_db)
       = login toy_libs 30 (fields [(''email'', Str ''a@x.com''), (''password'', Str ''p1'')]) sample_db"
proof -
  let ?b = "fields [(''email'', Str ''a@x.com''), (''password'', Str ''p1'')]"
  let ?c = "fields [(''email'', Str ''c@x.com''), (''password'', Str ''p3''), (''name'', Str ''C'')]"
  let ?g = "\<lambda>i::int. if i = 1 then ''other$p1'' else ''none''"
  have s: "fst (signup toy_libs 30 ''s3'' ?c sample_db)
       = \<lparr>status = 201,
          content = JObj [(''message'', JStr ''User created successfully''),
                          (''token'', JStr ''your-secret-key-change-in-production.xxx.c@x.com''),
                          (''user'', JObj [(''id'', JNum 3), (''email'', JStr ''c@x.com''),
                                           (''name'', JStr ''C'')])]\<rparr>"
    by (simp add: signup_def run_insert_users_def next_rowid_def token_payload_def sample_db_def
        toy_libs_def toy_hash_def JWT_SECRET_def Let_def numeral_3_eq_3)
  have l: "login toy_libs 30 ?b sample_db
       = ok_response
           (JObj [(''message'', JStr ''Login successful''),
                  (''token'', JStr ''your-secret-key-change-in-production.x.a@x.com''),
                  (''user'', JObj [(''id'', JNum 1), (''email'', JStr ''a@x.com''), (''name'', JStr ''A'')])])"
    by (simp add: login_def token_payload_def sample_db_def toy_libs_def toy_compare_def
        JWT_SECRET_def Let_def)
  have c: "\<forall>u \<in> set (users sample_db). compare_field toy_libs (?b ''password'') (?g (u_id u))
                               = compare_field toy_libs (?b ''password'') (u_password u)"
    by (simp add: sample_db_def toy_libs_def toy_compare_def)
  show ?thesis
    using password_hash_not_in_responses
      [where user = ann and d = sample_db and L = toy_libs and now = 30 and salt = "''s3''"
         and b = ?c and g = ?g]
      password_hash_not_in_responses
      [where user = ann and d = sample_db and L = toy_libs and now = 30 and salt = "''s3''"
         and b = ?b and g = ?g] s l c
    by (simp add: sample_db_def ann_def ok_response_def)
qed

section \<open>Issued tokens\<close>

text \<open>
  C4, as the code has it. The token of a successful signup and that of a successful login
  are \<^verbatim>\<open>jwt.sign\<close> of the payload with exactly the two claims id (the user's id, under
  that name) and email, under the module's secret, with the option expiresIn "24h", at
  the clock of the request. The payload the handlers pass has no claim named sub and no
  exp of its own: the expiry is the library's, from the option.
\<close>

theorem token_claims_id_email:
  "token_payload i (Some v) = [(''id'', JNum i), (''email'', v)]
   \<and> (status (fst (signup L now salt b d)) = 201 \<longrightarrow>
        (\<exists>email name. js (b ''email'') = Some email \<and> js (b ''name'') = Some name
           \<and> fst (signup L now salt b d) =
               (let i = next_rowid (users_seq d) (map u_id (users d)) in
                \<lparr>status = 201,
                 content = JObj [(''message'', JStr ''User created successfully''),
                                 (''token'', JStr (jwt_sign L (token_payload i (Some email))
                                                    JWT_SECRET ''24h'' now)),
                                 (''user'', JObj [(''id'', JNum i), (''email'', email),
                                                  (''name'', name)])]\<rparr>)))
   \<and> (status (login L now b d) = 200 \<longrightarrow>
        (\<exists>u. u \<in> set (users d) \<and> bind L (b ''email'') = Some (u_email u)
           \<and> login L now b d =
               ok_response
                 (JObj [(''message'', JStr ''Login successful''),
                        (''token'', JStr (jwt_sign L (token_payload (u_id u) (Some (JStr (u_email u))))
                                           JWT_SECRET ''24h'' now)),
                        (''user'', JObj [(''id'', JNum (u_id u)), (''email'', JStr (u_email u)),
                                         (''name'', JStr (u_name u))])])))"
proof (intro conjI impI)
  show "token_payload i (Some v) = [(''id'', JNum i), (''email'', v)]"
    by (simp add: token_payload_def)
next
  assume "status (fst (signup L now salt b d)) = 201"
  from signup_created [OF this]
  show "\<exists>email name. js (b ''email'') = Some email \<and> js (b ''name'') = Some name
           \<and> fst (signup L now salt b d) =
               (let i = next_rowid (users_seq d) (map u_id (users d)) in
                \<lparr>status = 201,
                 content = JObj [(''message'', JStr ''User created successfully''),
                                 (''token'', JStr (jwt_sign L (token_payload i (Some email))
                                                    JWT_SECRET ''24h'' now)),
                                 (''user'', JObj [(''id'', JNum i), (''email'', email),
                                                  (''name'', name)])]\<rparr>)"
    by (auto simp: Let_def token_payload_def)
next
  assume "status (login L now b d) = 200"
  from login_succeeded [OF this] obtain e p u where
    u: "bind L (b ''email'') = Some e" "find (\<lambda>u. u_email u = e) (users d) = Some u"
       "login L now b d =
               ok_response
                 (JObj [(''message'', JStr ''Login successful''),
                        (''token'', JStr (jwt_sign L [(''id'', JNum (u_id u)), (''email'', JStr (u_email u))]
                                           JWT_SECRET ''24h'' now)),
                        (''user'', JObj [(''id'', JNum (u_id u)), (''email'', JStr (u_email u)),
                                         (''name'', JStr (u_name u))])])"
    by blast
  from u(2) have "u \<in> set (users d)" "u_email u = e"
    by (auto simp: find_Some_iff)
  with u show "\<exists>u. u \<in> set (users d) \<and> bind L (b ''email'') = Some (u_email u)
           \<and> login L now b d =
               ok_response
                 (JObj [(''message'', JStr ''Login successful''),
                        (''token'', JStr (jwt_sign L (token_payload (u_id u) (Some (JStr (u_email u))))
                                           JWT_SECRET ''24h'' now)),
                        (''user'', JObj [(''id'', JNum (u_id u)), (''email'', JStr (u_email u)),
                                         (''name'', JStr (u_name u))])])"
    by (auto simp: token_payload_def)
qed

theorem token_claims_id_email_witness:
  "status (fst (signup toy_libs 30 ''s3''
          (fields [(''email'', Str ''c@x.com''), (''password'', Str ''p3''), (''name'', Str ''C'')]) sample_db))
     = 201
   \<and> fst (signup toy_libs 30 ''s3''
          (fields [(''email'', Str ''c@x.com''), (''password'', Str ''p3''), (''name'', Str ''C'')]) sample_db)
     = \<lparr>status = 201,
        content = JObj [(''message'', JStr ''User created successfully''),
                        (''token'', JStr (toy_sign [(''id'', JNum 3), (''email'', JStr ''c@x.com'')]
                                           ''your-secret-key-change-in-production'' ''24h'' 30)),
                        (''user'', JObj [(''id'', JNum 3), (''email'', JStr ''c@x.com''),
                                         (''name'', JStr ''C'')])]\<rparr>
   \<and> status (login toy_libs 31 (fields [(''email'', Str ''a@x.com''), (''password'', Str ''p1'')]) sample_db)
     = 200
   \<and> login toy_libs 31 (fields [(''email'', Str ''a@x.com''), (''password'', Str ''p1'')]) sample_db
     = ok_response
         (JObj [(''message'', JStr ''Login successful''),
                (''token'', JStr (toy_sign [(''id'', JNum 1), (''email'', JStr ''a@x.com'')]
                                   ''your-secret-key-change-in-production'' ''24h'' 31)),
                (''user'', JObj [(''id'', JNum 1), (''email'', JStr ''a@x.com''), (''name'', JStr ''A'')])])"
  using token_claims_id_email
    [where L = toy_libs and now = 30 and salt = "''s3''" and d = sample_db
       and b = "fields [(''email'', Str ''c@x.com''), (''password'', Str ''p3''), (''name'', Str ''C'')]"]
    token_claims_id_email
    [where L = toy_libs and now = 31 and d = sample_db
       and b = "fields [(''email'', Str ''a@x.com''), (''password'', Str ''p1'')]"]
  by (simp add: signup_def login_def run_insert_users_def next_rowid_def token_payload_def
      sample_db_def toy_libs_def toy_hash_def toy_compare_def JWT_SECRET_def ok_response_def Let_def)

text \<open>
  C4 as stated fails: the payload signed for user 3 at signup has the claims id and email;
  none is named sub, and exp is not among them.
\<close>

theorem token_claims_sub_counterexample:
  "map fst (token_payload 3 (js (Str ''c@x.com''))) = [''id'', ''email'']
   \<and> ''sub'' \<notin> set (map fst (token_payload 3 (js (Str ''c@x.com''))))
   \<and> fst (signup toy_libs 30 ''s3''
            (fields [(''email'', Str ''c@x.com''), (''password'', Str ''p3''), (''name'', Str ''C'')]) sample_db)
     = \<lparr>status = 201,
        content = JObj [(''message'', JStr ''User created successfully''),
                        (''token'', JStr (jwt_sign toy_libs (token_payload 3 (js (Str ''c@x.com'')))
                                           JWT_SECRET ''24h'' 30)),
                        (''user'', JObj [(''id'', JNum 3), (''email'', JStr ''c@x.com''),
                                         (''name'', JStr ''C'')])]\<rparr>"
  by (simp add: token_payload_def signup_def run_insert_users_def next_rowid_def sample_db_def
      toy_libs_def toy_hash_def Let_def)

section \<open>The signing secret\<close>

text \<open>
  C3, as the code has it. The secret is the literal bound on line 10, whatever the
  environment of the process: loading the module never fails, the guard verifies every
  token against that literal, and a successful signup and a successful login each return
  a token signed with it.
\<close>

theorem secret_is_literal:
  "load_config env = Inr \<lparr>port = 3000, secret = ''your-secret-key-change-in-production''\<rparr>
   \<and> authenticateToken L now authHeader =
       (case header_token authHeader of
          None \<Rightarrow> Inl (error_response 401 ''Access token required'')
        | Some token \<Rightarrow>
            if token = [] then Inl (error_response 401 ''Access token required'')
            else (case jwt_verify L token ''your-secret-key-change-in-production'' now of
                    Inl err \<Rightarrow> Inl (error_response 403 ''Invalid or expired token'')
                  | Inr user \<Rightarrow> Inr user))
   \<and> (status (fst (signup L now salt b d)) = 201 \<longrightarrow>
        (\<exists>i email name.
           content (fst (signup L now salt b d)) =
             JObj [(''message'', JStr ''User created successfully''),
                   (''token'', JStr (jwt_sign L [(''id'', JNum i), (''email'', email)]
                                      ''your-secret-key-change-in-production'' ''24h'' now)),
                   (''user'', JObj [(''id'', JNum i), (''email'', email), (''name'', name)])]))
   \<and> (status (login L now b d) = 200 \<longrightarrow>
        (\<exists>u. u \<in> set (users d) \<and>
           content (login L now b d) =
             JObj [(''message'', JStr ''Login successful''),
                   (''token'', JStr (jwt_sign L [(''id'', JNum (u_id u)), (''email'', JStr (u_email u))]
                                      ''your-secret-key-change-in-production'' ''24h'' now)),
                   (''user'', JObj [(''id'', JNum (u_id u)), (''email'', JStr (u_email u)),
                                    (''name'', JStr (u_name u))])]))"
proof (intro conjI impI)
  show "load_config env = Inr \<lparr>port = 3000, secret = ''your-secret-key-change-in-production''\<rparr>"
    by (simp add: load_config_def PORT_def JWT_SECRET_def)
next
  show "authenticateToken L now authHeader =
       (case header_token authHeader of
          None \<Rightarrow> Inl (error_response 401 ''Access token required'')
        | Some token \<Rightarrow>
            if token = [] then Inl (error_response 401 ''Access token required'')
            else (case jwt_verify L token ''your-secret-key-change-in-production'' now of
                    Inl err \<Rightarrow> Inl (error_response 403 ''Invalid or expired token'')
                  | Inr user \<Rightarrow> Inr user))"
    unfolding authenticateToken_def JWT_SECRET_def by (rule refl)
next
  assume "status (fst (signup L now salt b d)) = 201"
  from signup_created [OF this] obtain email name where
    "fst (signup L now salt b d) =
               (let i = next_rowid (users_seq d) (map u_id (users d)) in
                \<lparr>status = 201,
                 content = JObj [(''message'', JStr ''User created successfully''),
                                 (''token'', JStr (jwt_sign L [(''id'', JNum i), (''email'', email)]
                                                    JWT_SECRET ''24h'' now)),
                                 (''user'', JObj [(''id'', JNum i), (''email'', email),
                                                  (''name'', name)])]\<rparr>)"
    by (auto simp: Let_def)
  then have "content (fst (signup L now salt b d)) =
             JObj [(''message'', JStr ''User created successfully''),
                   (''token'', JStr (jwt_sign L [(''id'', JNum (next_rowid (users_seq d) (map u_id (users d)))),
                                                 (''email'', email)]
                                      ''your-secret-key-change-in-production'' ''24h'' now)),
                   (''user'', JObj [(''id'', JNum (next_rowid (users_seq d) (map u_id (users d)))),
                                    (''email'', email), (''name'', name)])]"
    by (simp add: Let_def JWT_SECRET_def)
  then show "\<exists>i email name.
           content (fst (signup L now salt b d)) =
             JObj [(''message'', JStr ''User created successfully''),
                   (''token'', JStr (jwt_sign L [(''id'', JNum i), (''email'', email)]
                                      ''your-secret-key-change-in-production'' ''24h'' now)),
                   (''user'', JObj [(''id'', JNum i), (''email'', email), (''name'', name)])]"
    by blast
next
  assume "status (login L now b d) = 200"
  from login_succeeded [OF this] obtain e p u where
    u: "find (\<lambda>u. u_email u = e) (users d) = Some u"
       "login L now b d =
               ok_response
                 (JObj [(''message'', JStr ''Login successful''),
                        (''token'', JStr (jwt_sign L [(''id'', JNum (u_id u)), (''email'', JStr (u_email u))]
                                           JWT_SECRET ''24h'' now)),
                        (''user'', JObj [(''id'', JNum (u_id u)), (''email'', JStr (u_email u)),
                                         (''name'', JStr (u_name u))])])"
    by blast
  from u(1) have "u \<in> set (users d)"
    by (auto simp: find_Some_iff)
  with u(2) show "\<exists>u. u \<in> set (users d) \<and>
           content (login L now b d) =
             JObj [(''message'', JStr ''Login successful''),
                   (''token'', JStr (jwt_sign L [(''id'', JNum (u_id u)), (''email'', JStr (u_email u))]
                                      ''your-secret-key-change-in-production'' ''24h'' now)),
                   (''user'', JObj [(''id'', JNum (u_id u)), (''email'', JStr (u_email u)),
                                    (''name'', JStr (u_name u))])]"
    by (auto simp: JWT_SECRET_def ok_response_def)
qed

theorem secret_is_literal_witness:
  "load_config Map.empty = Inr \<lparr>port = 3000, secret = ''your-secret-key-change-in-production''\<rparr>
   \<and> fst (signup toy_libs 30 ''s3''
          (fields [(''email'', Str ''c@x.com''), (''password'', Str ''p3''), (''name'', Str ''C'')]) sample_db)
     = \<lparr>status = 201,
        content = JObj [(''message'', JStr ''User created successfully''),
                        (''token'', JStr (toy_sign [(''id'', JNum 3), (''email'', JStr ''c@x.com'')]
                                           ''your-secret-key-change-in-production'' ''24h'' 30)),
                        (''user'', JObj [(''id'', JNum 3), (''email'', JStr ''c@x.com''),
                                         (''name'', JStr ''C'')])]\<rparr>
   \<and> status (login toy_libs 31 (fields [(''email'', Str ''a@x.com''), (''password'', Str ''p1'')]) sample_db)
     = 200
   \<and> content (login toy_libs 31 (fields [(''email'', Str ''a@x.com''), (''password'', Str ''p1'')]) sample_db)
     = JObj [(''message'', JStr ''Login successful''),
             (''token'', JStr (toy_sign [(''id'', JNum 1), (''email'', JStr ''a@x.com'')]
                                ''your-secret-key-change-in-production'' ''24h'' 31)),
             (''user'', JObj [(''id'', JNum 1), (''email'', JStr ''a@x.com''), (''name'', JStr ''A'')])]"
  using secret_is_literal
    [where env = Map.empty and L = toy_libs and now = 31 and d = sample_db
       and b = "fields [(''email'', Str ''a@x.com''), (''password'', Str ''p1'')]"]
    secret_is_literal
    [where env = Map.empty and L = toy_libs and now = 30 and d = sample_db and salt = "''s3''"
       and b = "fields [(''email'', Str ''c@x.com''), (''password'', Str ''p3''), (''name'', Str ''C'')]"]
  by (simp add: login_def signup_def run_insert_users_def next_rowid_def sample_db_def toy_libs_def
      toy_compare_def toy_hash_def Let_def ok_response_def token_payload_def JWT_SECRET_def)

text \<open>
  C3 as stated fails: with an environment in which nothing is set, so that no secret is
  supplied from outside, loading the module succeeds and the secret is the literal.
\<close>

theorem secret_from_environment_counterexample:
  "load_config Map.empty = Inr \<lparr>port = 3000, secret = ''your-secret-key-change-in-production''\<rparr>
   \<and> load_config Map.empty \<noteq> Inl MissingSecret
   \<and> JWT_SECRET = ''your-secret-key-change-in-production''"
  by (simp add: load_config_def PORT_def JWT_SECRET_def)

section \<open>Signup, then login\<close>

text \<open>
  C6, as the code has it. Let the body of a signup pass validation with a password that is
  a string and an email that no stored user has, and let the libraries do their part:
  the driver stores email and name (as it does every string), bcrypt hashes the password
  and recognises it in the hash, jsonwebtoken verifies under a secret what it signed
  under that secret, and its token is not empty and has no space. Then the signup answers
  201, and a login with the same email and password on the database the signup left
  answers 200 with the user's id, email and name and a token that \<^verbatim>\<open>jwt.verify\<close> accepts
  under the module's secret and that the guard accepts in a Bearer header, as the
  identity of that user.
\<close>

theorem signup_then_login:
  assumes valid: "truthy (b ''email'')" "truthy (b ''name'')"
      and password: "b ''password'' = Str p" "p \<noteq> []"
      and stored: "bind L (b ''email'') = Some e" "bind L (b ''name'') = Some n"
      and fresh: "e \<notin> set (map u_email (users d))"
      and same: "b' ''email'' = b ''email''" "b' ''password'' = b ''password''"
      and hash: "bcrypt_hash L p 10 salt = Some h"
      and compare: "bcrypt_compare L p h = Some True"
      and verify: "\<forall>s. \<exists>c. jwt_verify L (jwt_sign L [(''id'', JNum (next_rowid (users_seq d) (map u_id (users d)))),
                                                     (''email'', JStr e)] s ''24h'' t2) s t3 = Inr c
                          \<and> c_id c = next_rowid (users_seq d) (map u_id (users d)) \<and> c_email c = e"
      and compact: "jwt_sign L [(''id'', JNum (next_rowid (users_seq d) (map u_id (users d)))),
                                (''email'', JStr e)] JWT_SECRET ''24h'' t2 \<noteq> []"
                   "CHR '' '' \<notin> set (jwt_sign L [(''id'', JNum (next_rowid (users_seq d) (map u_id (users d)))),
                                                  (''email'', JStr e)] JWT_SECRET ''24h'' t2)"
  shows "status (fst (signup L t1 salt b d)) = 201
       \<and> (\<exists>token c.
             login L t2 b' (snd (signup L t1 salt b d)) =
               ok_response
                 (JObj [(''message'', JStr ''Login successful''), (''token'', JStr token),
                        (''user'', JObj [(''id'', JNum (next_rowid (users_seq d) (map u_id (users d)))),
                                         (''email'', JStr e), (''name'', JStr n)])])
             \<and> jwt_verify L token JWT_SECRET t3 = Inr c
             \<and> authenticateToken L t3 (Some (''Bearer '' @ token)) = Inr c
             \<and> c_id c = next_rowid (users_seq d) (map u_id (users d)) \<and> c_email c = e)"
proof -
  define i where "i = next_rowid (users_seq d) (map u_id (users d))"
  define new where "new = \<lparr>u_id = i, u_email = e, u_password = h, u_name = n, u_created_at = t1\<rparr>"
  define d1 where "d1 = d\<lparr>users := users d @ [new], users_seq := i\<rparr>"
  define token where "token = jwt_sign L [(''id'', JNum i), (''email'', JStr e)] JWT_SECRET ''24h'' t2"
  obtain email name where v: "js (b ''email'') = Some email" "js (b ''name'') = Some name"
    using valid truthy_js by blast
  from fresh have none: "\<forall>x \<in> set (users d). \<not> u_email x = e" by auto
  have s: "signup L t1 salt b d =
             (\<lparr>status = 201,
               content = JObj [(''message'', JStr ''User created successfully''),
                               (''token'', JStr (jwt_sign L [(''id'', JNum i), (''email'', email)] JWT_SECRET ''24h'' t1)),
                               (''user'', JObj [(''id'', JNum i), (''email'', email), (''name'', name)])]\<rparr>,
              d1)"
    using valid password stored fresh hash v
    by (simp add: signup_def run_insert_users_def token_payload_def Let_def i_def new_def d1_def)
  have found: "users_by_email (bind L (b' ''email'')) d1 = Some new"
    using none stored same by (simp add: d1_def find_new_row new_def)
  have l: "login L t2 b' d1 =
             ok_response (JObj [(''message'', JStr ''Login successful''), (''token'', JStr token),
                                (''user'', JObj [(''id'', JNum i), (''email'', JStr e), (''name'', JStr n)])])"
    using found valid password same compare
    by (simp add: login_def Let_def new_def token_payload_def token_def)
  from verify obtain c where c: "jwt_verify L token JWT_SECRET t3 = Inr c" "c_id c = i" "c_email c = e"
    unfolding token_def i_def by blast
  from compact have t: "token \<noteq> []" "CHR '' '' \<notin> set token"
    unfolding token_def i_def by simp_all
  have "header_token (Some (''Bearer'' @ CHR '' '' # token)) = Some (takeWhile (\<lambda>c. c \<noteq> CHR '' '') token)"
    by (rule header_token_segment) simp
  with t have "header_token (Some (''Bearer '' @ token)) = Some token"
    by (auto simp: takeWhile_eq_all_conv)
  with t c have g: "authenticateToken L t3 (Some (''Bearer '' @ token)) = Inr c"
    by (simp add: authenticateToken_def)
  have "status (fst (signup L t1 salt b d)) = 201"
    using s by simp
  moreover have "\<exists>token c.
             login L t2 b' (snd (signup L t1 salt b d)) =
               ok_response
                 (JObj [(''message'', JStr ''Login successful''), (''token'', JStr token),
                        (''user'', JObj [(''id'', JNum i), (''email'', JStr e), (''name'', JStr n)])])
             \<and> jwt_verify L token JWT_SECRET t3 = Inr c
             \<and> authenticateToken L t3 (Some (''Bearer '' @ token)) = Inr c
             \<and> c_id c = i \<and> c_email c = e"
  proof (intro exI conjI)
    show "login L t2 b' (snd (signup L t1 salt b d)) =
            ok_response (JObj [(''message'', JStr ''Login successful''), (''token'', JStr token),
                               (''user'', JObj [(''id'', JNum i), (''email'', JStr e), (''name'', JStr n)])])"
      using s l by simp
    show "jwt_verify L token JWT_SECRET t3 = Inr c" by (rule c(1))
    show "authenticateToken L t3 (Some (''Bearer '' @ token)) = Inr c" by (rule g)
    show "c_id c = i" by (rule c(2))
    show "c_email c = e" by (rule c(3))
  qed
  ultimately show ?thesis unfolding i_def by (rule conjI)
qed

lemma toy_tokens_verify:
  "0 \<le> i \<Longrightarrow> toy_verify (toy_sign [(''id'', JNum i), (''email'', JStr e)] s x t2) s t3
     = Inr \<lparr>c_id = i, c_email = e, c_iat = t3, c_exp = t3 + 86400\<rparr>"
proof -
  assume "0 \<le> i"
  have "dropWhile (\<lambda>c. c = CHR ''x'') (replicate (nat i) CHR ''x'' @ CHR ''.'' # e) = CHR ''.'' # e"
    by (induction "nat i") (simp_all add: dropWhile_append3)
  moreover have "takeWhile (\<lambda>c. c = CHR ''x'') (replicate (nat i) CHR ''x'' @ CHR ''.'' # e)
                   = replicate (nat i) CHR ''x''"
    by (simp add: takeWhile_tail)
  ultimately show ?thesis
    using \<open>0 \<le> i\<close> by (simp add: toy_verify_def)
qed

theorem signup_then_login_witness:
  "status (fst (signup toy_libs 30 ''s3''
      (fields [(''email'', Str ''c@x.com''), (''password'', Str ''p3''), (''name'', Str ''C'')]) sample_db)) = 201
   \<and> (\<exists>token c.
         login toy_libs 31 (fields [(''email'', Str ''c@x.com''), (''password'', Str ''p3'')])
           (snd (signup toy_libs 30 ''s3''
              (fields [(''email'', Str ''c@x.com''), (''password'', Str ''p3''), (''name'', Str ''C'')]) sample_db))
           = ok_response (JObj [(''message'', JStr ''Login successful''), (''token'', JStr token),
                                (''user'', JObj [(''id'', JNum 3), (''email'', JStr ''c@x.com''),
                                                 (''name'', JStr ''C'')])])
         \<and> jwt_verify toy_libs token JWT_SECRET 32 = Inr c
         \<and> authenticateToken toy_libs 32 (Some (''Bearer '' @ token)) = Inr c
         \<and> c_id c = 3 \<and> c_email c = ''c@x.com'')"
proof -
  let ?b = "fields [(''email'', Str ''c@x.com''), (''password'', Str ''p3''), (''name'', Str ''C'')]"
  let ?b' = "fields [(''email'', Str ''c@x.com''), (''password'', Str ''p3'')]"
  have n: "next_rowid (users_seq sample_db) (map u_id (users sample_db)) = 3"
    by (simp add: next_rowid_def sample_db_def)
  have valid: "truthy (?b ''email'')" "truthy (?b ''name'')" by simp_all
  have password: "?b ''password'' = Str ''p3''" "''p3'' \<noteq> []" by simp_all
  have stored: "bind toy_libs (?b ''email'') = Some ''c@x.com''" "bind toy_libs (?b ''name'') = Some ''C''"
    by simp_all
  have fresh: "''c@x.com'' \<notin> set (map u_email (users sample_db))" by (simp add: sample_db_def)
  have same: "?b' ''email'' = ?b ''email''" "?b' ''password'' = ?b ''password''" by simp_all
  have hash: "bcrypt_hash toy_libs ''p3'' 10 ''s3'' = Some ''s3$p3''"
    by (simp add: toy_libs_def toy_hash_def)
  have compare: "bcrypt_compare toy_libs ''p3'' ''s3$p3'' = Some True"
    by (simp add: toy_libs_def toy_compare_def)
  have verify: "\<forall>s. \<exists>c. jwt_verify toy_libs
                   (jwt_sign toy_libs [(''id'', JNum (next_rowid (users_seq sample_db) (map u_id (users sample_db)))),
                                       (''email'', JStr ''c@x.com'')] s ''24h'' 31) s 32 = Inr c
                 \<and> c_id c = next_rowid (users_seq sample_db) (map u_id (users sample_db))
                 \<and> c_email c = ''c@x.com''"
    unfolding n by (simp add: toy_libs_def toy_tokens_verify del: toy_sign.simps)
  have compact: "jwt_sign toy_libs [(''id'', JNum (next_rowid (users_seq sample_db) (map u_id (users sample_db)))),
                                    (''email'', JStr ''c@x.com'')] JWT_SECRET ''24h'' 31 \<noteq> []"
      "CHR '' '' \<notin> set (jwt_sign toy_libs [(''id'', JNum (next_rowid (users_seq sample_db) (map u_id (users sample_db)))),
                                            (''email'', JStr ''c@x.com'')] JWT_SECRET ''24h'' 31)"
    unfolding n by (simp_all add: toy_libs_def JWT_SECRET_def)
  show ?thesis
    using signup_then_login [OF valid password stored fresh same hash compare verify compact, of 30]
    unfolding n .
qed

text \<open>
  C6 as stated fails: the password 12345, a number, passes validation and c@x.com is not
  registered, yet \<^verbatim>\<open>bcrypt.hash\<close> rejects it and the signup is answered with 500.
\<close>

theorem signup_number_password_counterexample:
  "truthy (Str ''c@x.com'') \<and> truthy (Num 12345) \<and> truthy (Str ''C'')
   \<and> users_by_email (Some ''c@x.com'') sample_db = None
   \<and> signup toy_libs 30 ''s3''
        (fields [(''email'', Str ''c@x.com''), (''password'', Num 12345), (''name'', Str ''C'')]) sample_db
       = (error_response 500 ''Server error'', sample_db)"
  by (simp add: signup_def sample_db_def)

section \<open>The schema constraints hold in every state the routes reach\<close>

lemma constraints_empty_db: "constraints empty_db"
  by (simp add: constraints_def empty_db_def)

lemma run_insert_users_constraints:
  assumes "constraints d" and "run_insert_users e p n now d = Inr (i, d')"
  shows "constraints d'"
proof -
  from assms(2) obtain e' p' n' where v: "e = Some e'" "p = Some p'" "n = Some n'"
    by (cases e; cases p; cases n) (auto simp: run_insert_users_def)
  let ?i = "next_rowid (users_seq d) (map u_id (users d))"
  from assms(2) v have new: "e' \<notin> set (map u_email (users d))"
    and d': "d' = d\<lparr>users := users d @ [\<lparr>u_id = ?i, u_email = e', u_password = p', u_name = n',
                                          u_created_at = now\<rparr>], users_seq := ?i\<rparr>"
    by (auto simp: run_insert_users_def Let_def split: if_splits)
  have fresh: "?i \<notin> set (map u_id (users d))"
    using next_rowid_fresh(2) [of ?i "map u_id (users d)" "users_seq d"] by auto
  have le: "\<forall>u \<in> set (users d). u_id u \<le> ?i"
    using next_rowid_fresh(2) [of _ "map u_id (users d)" "users_seq d"] by fastforce
  show ?thesis
    using assms(1) new fresh le unfolding d' constraints_def
    by (auto simp: list_all_iff)
qed

lemma signup_constraints:
  assumes "constraints d"
  shows "constraints (snd (signup L now salt b d))"
proof (cases "run_insert_users (bind L (b ''email'')) (hash_field L (b ''password'') 10 salt)
               (bind L (b ''name'')) now d")
  case (Inl e)
  with assms show ?thesis
    by (auto simp: signup_def Let_def split: option.splits)
next
  case (Inr r)
  obtain i d' where r: "r = (i, d')" by (cases r)
  with Inr assms have "constraints d'" by (auto intro: run_insert_users_constraints)
  with Inr r assms show ?thesis
    by (auto simp: signup_def Let_def split: option.splits)
qed

lemma run_insert_tasks_constraints:
  assumes "constraints d" and "run_insert_tasks uid ti de st now d = Inr (i, d')"
  shows "constraints d'"
proof -
  let ?i = "next_rowid (tasks_seq d) (map t_id (tasks d))"
  from assms(2) obtain s where
    d': "d' = d\<lparr>tasks := tasks d @ [\<lparr>t_id = ?i, t_user_id = uid, t_title = s, t_description = de,
                                        t_status = st, t_created_at = now, t_updated_at = now\<rparr>],
                  tasks_seq := ?i\<rparr>"
    by (cases ti) (auto simp: run_insert_tasks_def Let_def)
  have fresh: "?i \<notin> set (map t_id (tasks d))"
    using next_rowid_fresh(2) [of ?i "map t_id (tasks d)" "tasks_seq d"] by auto
  have le: "\<forall>t \<in> set (tasks d). t_id t \<le> ?i"
    using next_rowid_fresh(2) [of _ "map t_id (tasks d)" "tasks_seq d"] by fastforce
  show ?thesis
    using assms(1) fresh le unfolding d' constraints_def
    by (auto simp: list_all_iff)
qed

lemma createTask_constraints:
  assumes "constraints d"
  shows "constraints (snd (createTask L user now b d))"
proof (cases "run_insert_tasks (c_id user) (bind L (b ''title'')) (bind L (js_or (b ''description'') Null))
               (bind L (js_or (b ''status'') (Str ''pending''))) now d")
  case (Inl e)
  with assms show ?thesis by (simp add: createTask_def Let_def)
next
  case (Inr r)
  obtain i d' where r: "r = (i, d')" by (cases r)
  with Inr assms have "constraints d'" by (auto intro: run_insert_tasks_constraints)
  with Inr r assms show ?thesis by (simp add: createTask_def Let_def)
qed

lemma run_delete_tasks_constraints:
  assumes "constraints d"
  shows "constraints (snd (run_delete_tasks i uid d))"
  using assms
  by (auto simp: constraints_def run_delete_tasks_def Let_def distinct_map_filter list_all_iff)

lemma deleteTask_constraints:
  assumes "constraints d"
  shows "constraints (snd (deleteTask L user pid d))"
  using run_delete_tasks_constraints [OF assms, of "sql_integer L pid" "c_id user"]
  by (auto simp: deleteTask_def split: prod.splits)

lemma run_update_tasks_constraints:
  assumes "constraints d" and "run_update_tasks ups now i uid d = Inr (n, d')"
  shows "constraints d'"
proof -
  note f = run_update_tasks_frame [OF assms(2)]
  from f have ids: "map t_id (tasks d') = map t_id (tasks d)"
    by (auto simp: list_all2_conv_all_nth intro!: nth_equalityI)
  from f have "users d' = users d" "users_seq d' = users_seq d" "tasks_seq d' = tasks_seq d"
    by simp_all
  moreover have "list_all (\<lambda>t. t_id t \<le> tasks_seq d) (tasks d')
                   = list_all (\<lambda>t. t_id t \<le> tasks_seq d) (tasks d)"
    using arg_cong [OF ids, of "list_all (\<lambda>i. i \<le> tasks_seq d)"] by (simp add: list_all_iff)
  ultimately show ?thesis
    using assms(1) ids by (simp add: constraints_def)
qed

lemma updateTask_constraints:
  assumes "constraints d"
  shows "constraints (snd (updateTask L user pid now b d))"
proof -
  define ups where "ups = (if truthy (b ''title'') then [(Title, bind L (b ''title''))] else [])
                    @ (if b ''description'' \<noteq> Undefined then [(Description, bind L (b ''description''))] else [])
                    @ (if truthy (b ''status'') then [(Status, bind L (b ''status''))] else [])
                    @ [(Updated_at, None)]"
  have u: "updateTask L user pid now b d =
     (if \<not> truthy (b ''title'') \<and> \<not> truthy (b ''description'') \<and> \<not> truthy (b ''status'')
      then (error_response 400 ''At least one field is required'', d)
      else case run_update_tasks ups now (sql_integer L pid) (c_id user) d of
             Inl err \<Rightarrow> (error_response 500 ''Database error'', d)
           | Inr (changes, d') \<Rightarrow>
               if changes = 0 then (error_response 404 ''Task not found'', d')
               else
                 (ok_response (JObj ([(''message'', JStr ''Task updated successfully'')]
                                      @ property ''task'' (map_option task_json
                                                         (tasks_by_id (sql_integer L pid) d')))),
                  d'))"
    unfolding updateTask_def ups_def Let_def by (rule refl)
  show ?thesis
  proof (cases "run_update_tasks ups now (sql_integer L pid) (c_id user) d")
    case (Inl e)
    with assms show ?thesis by (simp add: u)
  next
    case (Inr r)
    obtain n d' where r: "r = (n, d')" by (cases r)
    with Inr assms have "constraints d'" by (auto intro: run_update_tasks_constraints)
    with Inr r assms show ?thesis by (simp add: u)
  qed
qed

lemma run_update_users_constraints:
  assumes c: "constraints d" and run: "run_update_users ups i d = Inr d'"
  shows "constraints d'"
proof (cases "list_ex (\<lambda>u. u_id u = i) (users d)")
  case False
  with run have "d' = d" by (simp add: run_update_users_def)
  with c show ?thesis by simp
next
  case True
  with run obtain sets where sets: "non_null ups = Some sets"
    and ok: "\<not> (list_ex (\<lambda>(c, v). c = Email) sets \<and>
                 list_ex (\<lambda>u. u_id u = i \<and>
                    list_ex (\<lambda>w. u_id w \<noteq> i \<and> u_email w = u_email (foldl set_user_column u sets))
                      (users d)) (users d))"
    and d': "d' = d\<lparr>users := map (\<lambda>u. if u_id u = i then foldl set_user_column u sets else u) (users d)\<rparr>"
    by (auto simp: run_update_users_def Let_def split: option.splits if_splits)
  let ?f = "\<lambda>u. if u_id u = i then foldl set_user_column u sets else u"
  have id: "\<And>u. u_id (?f u) = u_id u"
    using set_user_columns_frame by simp
  then have ids: "map u_id (map ?f (users d)) = map u_id (users d)"
    by (simp add: comp_def)
  from c have du: "distinct (users d)" and inj_id: "inj_on u_id (set (users d))"
    and inj_em: "inj_on u_email (set (users d))"
    by (auto simp: constraints_def distinct_map)
  have "inj_on (u_email \<circ> ?f) (set (users d))"
  proof (rule inj_onI)
    fix x y
    assume x: "x \<in> set (users d)" and y: "y \<in> set (users d)"
      and eq: "(u_email \<circ> ?f) x = (u_email \<circ> ?f) y"
    show "x = y"
    proof (cases "u_id x = i"; cases "u_id y = i")
      assume "u_id x = i" "u_id y = i"
      with x y inj_id show ?thesis by (auto dest: inj_onD)
    next
      assume "u_id x \<noteq> i" "u_id y \<noteq> i"
      with eq x y inj_em show ?thesis by (auto dest: inj_onD)
    next
      assume a: "u_id x = i" "u_id y \<noteq> i"
      show ?thesis
      proof (cases "Email \<in> fst ` set sets")
        case False
        then have "u_email (foldl set_user_column x sets) = u_email x"
          using set_user_columns_frame [of x sets] by simp
        with eq a x y inj_em show ?thesis by (auto dest: inj_onD)
      next
        case True
        then have "list_ex (\<lambda>(c, v). c = Email) sets" by (force simp: list_ex_iff)
        moreover have "list_ex (\<lambda>u. u_id u = i \<and>
                    list_ex (\<lambda>w. u_id w \<noteq> i \<and> u_email w = u_email (foldl set_user_column u sets))
                      (users d)) (users d)"
          unfolding list_ex_iff using a x y eq
          by (intro bexI [of _ x] conjI bexI [of _ y]) simp_all
        ultimately show ?thesis using ok by simp
      qed
    next
      assume a: "u_id x \<noteq> i" "u_id y = i"
      show ?thesis
      proof (cases "Email \<in> fst ` set sets")
        case False
        then have "u_email (foldl set_user_column y sets) = u_email y"
          using set_user_columns_frame [of y sets] by simp
        with eq a x y inj_em show ?thesis by (auto dest: inj_onD)
      next
        case True
        then have "list_ex (\<lambda>(c, v). c = Email) sets" by (force simp: list_ex_iff)
        moreover have "list_ex (\<lambda>u. u_id u = i \<and>
                    list_ex (\<lambda>w. u_id w \<noteq> i \<and> u_email w = u_email (foldl set_user_column u sets))
                      (users d)) (users d)"
          unfolding list_ex_iff using a x y eq
          by (intro bexI [of _ y] conjI bexI [of _ x]) simp_all
        ultimately show ?thesis using ok by simp
      qed
    qed
  qed
  with du have "distinct (map u_email (map ?f (users d)))"
    by (simp add: distinct_map)
  then have em: "distinct (map u_email (users d'))"
    by (simp only: d') simp
  from c ids have "distinct (map u_id (map ?f (users d)))"
    by (simp only: constraints_def)
  then have di: "distinct (map u_id (users d'))"
    by (simp only: d') simp
  have le: "list_all (\<lambda>u. u_id u \<le> users_seq d') (users d')"
  proof -
    from c have "\<forall>u \<in> set (users d). u_id u \<le> users_seq d"
      by (simp add: constraints_def list_all_iff)
    then have "\<forall>u \<in> set (users d). u_id (?f u) \<le> users_seq d"
      by (simp only: id)
    then have "\<forall>v \<in> ?f ` set (users d). u_id v \<le> users_seq d"
      by blast
    then have "list_all (\<lambda>u. u_id u \<le> users_seq d) (map ?f (users d))"
      by (simp only: list_all_iff set_map)
    then show ?thesis by (simp only: d') simp
  qed
  have "tasks d' = tasks d" "tasks_seq d' = tasks_seq d"
    by (simp_all add: d')
  with c em di le show ?thesis
    by (simp add: constraints_def)
qed

lemma updateProfile_constraints:
  assumes "constraints d"
  shows "constraints (snd (updateProfile L user b d))"
proof -
  define ups where "ups = (if truthy (b ''name'') then [(Name, bind L (b ''name''))] else [])
                    @ (if truthy (b ''email'') then [(Email, bind L (b ''email''))] else [])"
  show ?thesis
  proof (cases "run_update_users ups (c_id user) d")
    case (Inl e)
    with assms show ?thesis by (simp add: updateProfile_def Let_def ups_def)
  next
    case (Inr d')
    with assms have "constraints d'" by (auto intro: run_update_users_constraints)
    with Inr assms show ?thesis by (simp add: updateProfile_def Let_def ups_def)
  qed
qed

end
